theory Spec2Isabelle
  imports Main "HOL-Library.Word"
begin

unbundle bit_operations_syntax

section \<open>Common values: bytes, exceptions, struct packing\<close>

type_synonym byte = "8 word"

text \<open>The exceptions the modelled code can raise, as values.\<close>

datatype error =
    StructError
  | InterruptedError
  | IndexError
  | TypeError
  | AttributeError
  | ValueError
  | OverflowError
  | UnicodeDecodeError
  | UnicodeEncodeError
  | KeyError
  | AssertionError
  | AlreadyClosed
  | HandshakeFail_code int
  | HandshakeFail_invalid
  | NotImplementedError
  | InvalidExtension

text \<open>Sequencing of computations that may raise.\<close>

definition bind_e :: "error + 'a \<Rightarrow> ('a \<Rightarrow> error + 'b) \<Rightarrow> error + 'b" where
  "bind_e m k = (case m of Inl e \<Rightarrow> Inl e | Inr x \<Rightarrow> k x)"

text \<open>
  \<^verbatim>\<open>struct.pack\<close> and \<^verbatim>\<open>struct.unpack\<close> for the three formats the code uses
  (\<^verbatim>\<open>!B\<close>, \<^verbatim>\<open>!H\<close>, \<^verbatim>\<open>!Q\<close>: unsigned, big-endian, 1, 2 and 8 bytes). Packing a
  number outside the format's range and unpacking a buffer of the wrong size raise
  \<^verbatim>\<open>struct.error\<close>.
\<close>

datatype fmt = FmtB | FmtH | FmtQ

fun calcsize :: "fmt \<Rightarrow> nat" where
  "calcsize FmtB = 1"
| "calcsize FmtH = 2"
| "calcsize FmtQ = 8"

fun be_bytes :: "nat \<Rightarrow> int \<Rightarrow> byte list" where
  "be_bytes 0 n = []"
| "be_bytes (Suc k) n = be_bytes k (n div 256) @ [word_of_int n]"

definition be_int :: "byte list \<Rightarrow> int" where
  "be_int bs = foldl (\<lambda>a b. a * 256 + uint b) 0 bs"

definition pack :: "fmt \<Rightarrow> int \<Rightarrow> error + byte list" where
  "pack f n =
     (if 0 \<le> n \<and> n < 2 ^ (8 * calcsize f) then Inr (be_bytes (calcsize f) n)
      else Inl StructError)"

definition unpack :: "fmt \<Rightarrow> byte list \<Rightarrow> error + int" where
  "unpack f bs = (if length bs = calcsize f then Inr (be_int bs) else Inl StructError)"

section \<open>framing.py\<close>

subsection \<open>Streams\<close>

text \<open>
  A binary stream: the bytes still to be read and the \<^verbatim>\<open>closed\<close> flag.
  \<^verbatim>\<open>read(n)\<close> returns at most \<^verbatim>\<open>n\<close> bytes and fewer at the end of the data; on a
  closed stream it raises \<^verbatim>\<open>ValueError\<close>, and for a size that does not fit the
  signed 64-bit size type (\<open>n \<ge> 2 ^ 63\<close>) it raises \<^verbatim>\<open>OverflowError\<close>.
\<close>

record stream =
  closed :: bool
  buf :: "byte list"

definition read :: "stream \<Rightarrow> nat \<Rightarrow> error + (byte list \<times> stream)" where
  "read s n =
     (if closed s then Inl ValueError
      else if 2 ^ 63 \<le> n then Inl OverflowError
      else Inr (take n (buf s), s\<lparr>buf := drop n (buf s)\<rparr>))"

definition unpack_from :: "fmt \<Rightarrow> stream \<Rightarrow> error + (int \<times> stream)" where
  "unpack_from f s =
     (if closed s then Inl InterruptedError
      else bind_e (read s (calcsize f)) (\<lambda>(data, s').
           bind_e (unpack f data) (\<lambda>v. Inr (v, s'))))"

subsection \<open>FrameOpcode\<close>

datatype FrameOpcode = CONTINUATION | TEXT | BINARY | CLOSE | PING | PONG | RESERVED

fun opcode_value :: "FrameOpcode \<Rightarrow> int option" where
  "opcode_value CONTINUATION = Some 0"
| "opcode_value TEXT = Some 1"
| "opcode_value BINARY = Some 2"
| "opcode_value CLOSE = Some 8"
| "opcode_value PING = Some 9"
| "opcode_value PONG = Some 10"
| "opcode_value RESERVED = None"

text \<open>The members in definition order, which is the order the enum iterates in.\<close>

definition FrameOpcode_members :: "FrameOpcode list" where
  "FrameOpcode_members = [CONTINUATION, TEXT, BINARY, CLOSE, PING, PONG, RESERVED]"

text \<open>
  \<^verbatim>\<open>from_value\<close> returns the first member whose value is the given integer; when the
  loop finds none the function falls off its end and returns \<^verbatim>\<open>None\<close>.
\<close>

definition from_value :: "int \<Rightarrow> FrameOpcode option" where
  "from_value v = find (\<lambda>e. opcode_value e = Some v) FrameOpcode_members"

subsection \<open>Frame\<close>

text \<open>
  The reserved bits are an \<^verbatim>\<open>ExtensionRsvs\<close> triple; every construction site in the
  repository fills it with 0 or 1, so the fields are booleans here. The opcode field holds
  whatever \<^verbatim>\<open>from_value\<close> returned, so it can be \<^verbatim>\<open>None\<close>.
\<close>

record Frame =
  final :: bool
  rsvs :: "bool \<times> bool \<times> bool"
  opcode :: "FrameOpcode option"
  payload :: "byte list"
  mask_key :: "byte list option"

fun apply_mask_from :: "nat \<Rightarrow> byte list \<Rightarrow> byte list \<Rightarrow> error + byte list" where
  "apply_mask_from i m [] = Inr []"
| "apply_mask_from i m (c # cs) =
     (if i mod 4 < length m
      then bind_e (apply_mask_from (Suc i) m cs) (\<lambda>r. Inr ((c XOR m ! (i mod 4)) # r))
      else Inl IndexError)"

definition apply_mask :: "byte list \<Rightarrow> byte list \<Rightarrow> error + byte list" where
  "apply_mask m content = apply_mask_from 0 m content"

definition mask_flag :: "byte list option \<Rightarrow> int" where
  "mask_flag m = (if m = None then 0 else 128)"

definition header_byte :: "Frame \<Rightarrow> error + int" where
  "header_byte f =
     (case opcode f of
        None \<Rightarrow> Inl AttributeError
      | Some oc \<Rightarrow>
          (case opcode_value oc of
             None \<Rightarrow> Inl TypeError
           | Some v \<Rightarrow>
               Inr (push_bit 7 (of_bool (final f))
                    OR push_bit 6 (of_bool (fst (rsvs f)))
                    OR push_bit 5 (of_bool (fst (snd (rsvs f))))
                    OR push_bit 4 (of_bool (snd (snd (rsvs f))))
                    OR v)))"

definition length_bytes :: "nat \<Rightarrow> byte list option \<Rightarrow> error + byte list" where
  "length_bytes payload_length m =
     (if payload_length \<le> 125 then pack FmtB (int payload_length OR mask_flag m)
      else if payload_length \<le> 65535 then
        bind_e (pack FmtB (126 OR mask_flag m)) (\<lambda>a.
        bind_e (pack FmtH (int payload_length)) (\<lambda>b. Inr (a @ b)))
      else
        bind_e (pack FmtB (127 OR mask_flag m)) (\<lambda>a.
        bind_e (pack FmtQ (int payload_length)) (\<lambda>b. Inr (a @ b))))"

definition build :: "Frame \<Rightarrow> error + byte list" where
  "build f =
     bind_e (header_byte f) (\<lambda>h.
     bind_e (pack FmtB h) (\<lambda>b0.
     bind_e (length_bytes (length (payload f)) (mask_key f)) (\<lambda>bl.
       (case mask_key f of
          Some m \<Rightarrow> bind_e (apply_mask m (payload f)) (\<lambda>p. Inr (b0 @ bl @ m @ p))
        | None \<Rightarrow> Inr (b0 @ bl @ payload f)))))"

definition load :: "stream \<Rightarrow> error + (Frame \<times> stream)" where
  "load s0 =
     bind_e (unpack_from FmtB s0) (\<lambda>(code_header, s1).
     let fin = (code_header AND 128 \<noteq> 0);
         r = (code_header AND 64 \<noteq> 0, code_header AND 32 \<noteq> 0, code_header AND 16 \<noteq> 0);
         oc = from_value (code_header AND 15)
     in
     bind_e (unpack_from FmtB s1) (\<lambda>(mask_length, s2).
     let has_mask = (mask_length AND 128 \<noteq> 0);
         payload_length = mask_length AND NOT 128
     in
     bind_e (if payload_length = 126 then unpack_from FmtB s2
             else if payload_length = 127 then unpack_from FmtQ s2
             else Inr (payload_length, s2)) (\<lambda>(payload_length, s3).
       if has_mask then
         bind_e (read s3 4) (\<lambda>(m, s4).
         bind_e (read s4 (nat payload_length)) (\<lambda>(raw, s5).
         bind_e (apply_mask m raw) (\<lambda>p.
           Inr (\<lparr>final = fin, rsvs = r, opcode = oc, payload = p, mask_key = Some m\<rparr>, s5))))
       else
         bind_e (read s3 (nat payload_length)) (\<lambda>(p, s4).
           Inr (\<lparr>final = fin, rsvs = r, opcode = oc, payload = p, mask_key = None\<rparr>, s4)))))"

text \<open>Decoding the bytes of an encoded frame, from a fresh open stream.\<close>

definition decode_encoded :: "Frame \<Rightarrow> error + Frame" where
  "decode_encoded f =
     bind_e (build f) (\<lambda>bs.
     bind_e (load \<lparr>closed = False, buf = bs\<rparr>) (\<lambda>(g, s). Inr g))"

subsection \<open>Text and UTF-8\<close>

text \<open>
  A Python \<^verbatim>\<open>str\<close> is a sequence of Unicode code points. \<^verbatim>\<open>bytes.decode("utf8")\<close> is
  the strict decoder: it accepts shortest-form sequences of scalar values only (no
  surrogates, nothing above U+10FFFF) and raises \<^verbatim>\<open>UnicodeDecodeError\<close> otherwise.
\<close>

type_synonym pystr = "nat list"

definition str :: "string \<Rightarrow> pystr" where
  "str s = map of_char s"

definition in_range :: "nat \<Rightarrow> nat \<Rightarrow> byte \<Rightarrow> bool" where
  "in_range lo hi b = (lo \<le> unat b \<and> unat b \<le> hi)"

definition cons_e :: "'a \<Rightarrow> error + 'a list \<Rightarrow> error + 'a list" where
  "cons_e x m = bind_e m (\<lambda>r. Inr (x # r))"

fun utf8_decode :: "byte list \<Rightarrow> error + pystr" where
  "utf8_decode [] = Inr []"
| "utf8_decode (b0 # bs) =
     (let n0 = unat b0 in
      if n0 < 128 then cons_e n0 (utf8_decode bs)
      else if 194 \<le> n0 \<and> n0 \<le> 223 then
        (case bs of
           b1 # bs1 \<Rightarrow>
             if in_range 128 191 b1
             then cons_e ((n0 - 192) * 64 + (unat b1 - 128)) (utf8_decode bs1)
             else Inl UnicodeDecodeError
         | _ \<Rightarrow> Inl UnicodeDecodeError)
      else if 224 \<le> n0 \<and> n0 \<le> 239 then
        (case bs of
           b1 # b2 # bs2 \<Rightarrow>
             if in_range (if n0 = 224 then 160 else 128) (if n0 = 237 then 159 else 191) b1
                \<and> in_range 128 191 b2
             then cons_e ((n0 - 224) * 4096 + (unat b1 - 128) * 64 + (unat b2 - 128))
                         (utf8_decode bs2)
             else Inl UnicodeDecodeError
         | _ \<Rightarrow> Inl UnicodeDecodeError)
      else if 240 \<le> n0 \<and> n0 \<le> 244 then
        (case bs of
           b1 # b2 # b3 # bs3 \<Rightarrow>
             if in_range (if n0 = 240 then 144 else 128) (if n0 = 244 then 143 else 191) b1
                \<and> in_range 128 191 b2 \<and> in_range 128 191 b3
             then cons_e ((n0 - 240) * 262144 + (unat b1 - 128) * 4096
                          + (unat b2 - 128) * 64 + (unat b3 - 128))
                         (utf8_decode bs3)
             else Inl UnicodeDecodeError
         | _ \<Rightarrow> Inl UnicodeDecodeError)
      else Inl UnicodeDecodeError)"

definition utf8_encode_char :: "nat \<Rightarrow> error + byte list" where
  "utf8_encode_char c =
     (if c < 128 then Inr [of_nat c]
      else if c < 2048 then Inr [of_nat (192 + c div 64), of_nat (128 + c mod 64)]
      else if 55296 \<le> c \<and> c \<le> 57343 then Inl UnicodeEncodeError
      else if c < 65536 then
        Inr [of_nat (224 + c div 4096), of_nat (128 + c div 64 mod 64), of_nat (128 + c mod 64)]
      else if c < 1114112 then
        Inr [of_nat (240 + c div 262144), of_nat (128 + c div 4096 mod 64),
             of_nat (128 + c div 64 mod 64), of_nat (128 + c mod 64)]
      else Inl ValueError)"

fun utf8_encode :: "pystr \<Rightarrow> error + byte list" where
  "utf8_encode [] = Inr []"
| "utf8_encode (c # cs) =
     bind_e (utf8_encode_char c) (\<lambda>b. bind_e (utf8_encode cs) (\<lambda>r. Inr (b @ r)))"

subsection \<open>Message\<close>

datatype pytype = PyStr | PyBytes

datatype pydata = Str pystr | Bytes "byte list"

record Message =
  data_type :: pytype
  data :: pydata

text \<open>
  \<^verbatim>\<open>chain[0]\<close> raises \<^verbatim>\<open>IndexError\<close> on an empty chain. The joined payload is a
  \<^verbatim>\<open>bytes\<close> value, so it is decoded exactly when the data type is \<^verbatim>\<open>str\<close>.
\<close>

definition Message_init :: "Frame list \<Rightarrow> error + Message" where
  "Message_init chain =
     (case chain of
        [] \<Rightarrow> Inl IndexError
      | c0 # _ \<Rightarrow>
          let dt = (if opcode c0 = Some TEXT then PyStr else PyBytes);
              d = concat (map payload chain)
          in if dt = PyBytes then Inr \<lparr>data_type = dt, data = Bytes d\<rparr>
             else bind_e (utf8_decode d) (\<lambda>t. Inr \<lparr>data_type = dt, data = Str t\<rparr>))"

subsection \<open>Control frames\<close>

record ControlFrame =
  type_opcode :: "FrameOpcode option"
  raw_data :: "byte list"

text \<open>
  \<^verbatim>\<open>Close\<close> adds the status code and the reason. \<^verbatim>\<open>unpack\<close> returns a tuple and
  \<^verbatim>\<open>Close.load\<close> stores the tuple itself, so the code field holds a one-element tuple.
\<close>

record Close = ControlFrame +
  code :: "int list option"
  reason :: "pystr option"

definition ControlFrame_init :: "Frame \<Rightarrow> ControlFrame" where
  "ControlFrame_init f = \<lparr>type_opcode = opcode f, raw_data = payload f\<rparr>"

definition Close_load :: "byte list \<Rightarrow> error + (int list option \<times> pystr option)" where
  "Close_load raw =
     (if length raw > 2 then
        bind_e (unpack FmtH (take 2 raw)) (\<lambda>c.
        bind_e (utf8_decode (take 2 raw)) (\<lambda>r. Inr (Some [c], Some r)))
      else if length raw = 2 then
        bind_e (unpack FmtH raw) (\<lambda>c. Inr (Some [c], None))
      else Inr (None, None))"

definition Close_init :: "Frame \<Rightarrow> error + Close" where
  "Close_init f =
     bind_e (Close_load (payload f)) (\<lambda>(c, r).
       Inr \<lparr>type_opcode = opcode f, raw_data = payload f, code = c, reason = r\<rparr>)"

subsection \<open>Extensions (chain.py) and the building of control frames\<close>

datatype control_class = ControlFrame_cls | Ping_cls | Pong_cls | Close_cls

datatype frame_class = Frame_cls | Control control_class

fun OPCODE :: "control_class \<Rightarrow> FrameOpcode" where
  "OPCODE ControlFrame_cls = RESERVED"
| "OPCODE Ping_cls = PING"
| "OPCODE Pong_cls = PONG"
| "OPCODE Close_cls = CLOSE"

text \<open>
  An extension object: the class attributes and its answer to \<^verbatim>\<open>should_set\<close>. The other
  callbacks of the base class do nothing; a call of one is recorded as an event (below).
\<close>

record Extension =
  RSV1 :: bool
  RSV2 :: bool
  RSV3 :: bool
  NAME :: "pystr option"
  NEGOTIATE :: bool
  should_set :: "nat \<Rightarrow> frame_class \<Rightarrow> bool"

text \<open>\<^verbatim>\<open>os.urandom\<close> draws from a supply of random bytes that is part of the state.\<close>

type_synonym entropy = "nat \<Rightarrow> byte"

definition urandom :: "nat \<Rightarrow> entropy \<Rightarrow> byte list \<times> entropy" where
  "urandom n g = (map g [0..<n], \<lambda>i. g (i + n))"

text \<open>
  Both places that compute the reserved bits of an outgoing frame overwrite
  \<^verbatim>\<open>rsvs[i]\<close> with each extension's answer in turn, so the last extension decides.
\<close>

definition rsv_answer :: "Extension list \<Rightarrow> frame_class \<Rightarrow> nat \<Rightarrow> bool" where
  "rsv_answer exts cls i = foldl (\<lambda>r e. should_set e i cls) False exts"

definition build_rsvs :: "Extension list \<Rightarrow> frame_class \<Rightarrow> bool \<times> bool \<times> bool" where
  "build_rsvs exts cls = (rsv_answer exts cls 0, rsv_answer exts cls 1, rsv_answer exts cls 2)"

definition truthy_bytes :: "byte list option \<Rightarrow> bool" where
  "truthy_bytes b = (case b of None \<Rightarrow> False | Some x \<Rightarrow> x \<noteq> [])"

definition ControlFrame_build ::
  "control_class \<Rightarrow> Extension list \<Rightarrow> byte list option \<Rightarrow> byte list option \<Rightarrow> entropy
   \<Rightarrow> (error + byte list) \<times> entropy" where
  "ControlFrame_build cls exts mask_arg payload_arg g =
     (let r = build_rsvs exts (Control cls);
          p = (if truthy_bytes payload_arg then the payload_arg else []);
          (m, g') = (if \<not> truthy_bytes mask_arg then (None, g)
                     else (Some (fst (urandom 4 g)), snd (urandom 4 g)))
      in (build \<lparr>final = True, rsvs = r, opcode = Some (OPCODE cls), payload = p, mask_key = m\<rparr>,
          g'))"

definition Close_payload :: "int option \<Rightarrow> pystr option \<Rightarrow> error + byte list" where
  "Close_payload code_arg reason_arg =
     (case code_arg of
        None \<Rightarrow> Inr []
      | Some c \<Rightarrow>
          if c = 0 then Inr []
          else bind_e (pack FmtH c) (\<lambda>pc.
               (case reason_arg of
                  None \<Rightarrow> Inr pc
                | Some r \<Rightarrow> if r = [] then Inr pc
                            else bind_e (utf8_encode r) (\<lambda>pr. Inr (pc @ pr)))))"

definition Close_build ::
  "Extension list \<Rightarrow> byte list option \<Rightarrow> int option \<Rightarrow> pystr option \<Rightarrow> entropy
   \<Rightarrow> (error + byte list) \<times> entropy" where
  "Close_build exts mask_arg code_arg reason_arg g =
     (case Close_payload code_arg reason_arg of
        Inl e \<Rightarrow> (Inl e, g)
      | Inr p \<Rightarrow> ControlFrame_build Close_cls exts mask_arg (Some p) g)"

definition Ping_build ::
  "Extension list \<Rightarrow> byte list option \<Rightarrow> entropy \<Rightarrow> (error + byte list) \<times> entropy" where
  "Ping_build exts mask_arg g = ControlFrame_build Ping_cls exts mask_arg None g"

definition Pong_build ::
  "Extension list \<Rightarrow> byte list option \<Rightarrow> entropy \<Rightarrow> (error + byte list) \<times> entropy" where
  "Pong_build exts mask_arg g = ControlFrame_build Pong_cls exts mask_arg None g"

section \<open>utils.py\<close>

datatype ConnectionStatus = CLOSED | CONNECTING | CONNECTED | CLOSING

text \<open>
  A member of an \<^verbatim>\<open>Enum\<close> without a \<^verbatim>\<open>__bool__\<close> of its own is true in a condition,
  whatever its value.
\<close>

definition truthy_member :: "ConnectionStatus \<Rightarrow> bool" where
  "truthy_member m = True"

section \<open>client.py and chain.py: the connection and its frame constructor\<close>

subsection \<open>State\<close>

text \<open>
  What the program does to the outside is recorded, in order, as a trace of events: calls
  of extension callbacks (with the position of the extension in the list), calls of the
  connection's own callbacks, and operations on the socket. The socket is supplied by the
  environment; its operations are taken to succeed, and a callback of an extension is
  taken to return without raising and without touching the connection.
\<close>

datatype hook =
    On_connection
  | On_message Message
  | On_ping ControlFrame
  | On_pong ControlFrame
  | On_close Close
  | Before_control_frame control_class
  | Before_frame Frame

datatype event =
    ExtensionCall nat hook
  | ClientCall hook
  | SocketConnect
  | SocketSend "byte list"
  | SocketClose
  | SpawnStart

record ParseResult =
  scheme :: pystr
  hostname :: "pystr option"
  path :: pystr

record WSConstructor =
  frame_setup :: "Frame list"
  last_frame :: "Frame option"

record Client =
  uri :: ParseResult
  extensions :: "Extension list"
  origin :: "pystr option"
  host :: "pystr option"
  status :: ConnectionStatus
  constructor :: WSConstructor
  close_reason :: "Close option"
  entropy_src :: entropy
  trace :: "event list"

text \<open>
  An operation on the connection returns the exception it raised, if any, and the state
  it left behind.
\<close>

type_synonym outcome = "error option \<times> Client"

definition then_do :: "outcome \<Rightarrow> (Client \<Rightarrow> outcome) \<Rightarrow> outcome" where
  "then_do r k = (case r of (Some e, c) \<Rightarrow> (Some e, c) | (None, c) \<Rightarrow> k c)"

definition log :: "Client \<Rightarrow> event \<Rightarrow> Client" where
  "log c ev = c\<lparr>trace := trace c @ [ev]\<rparr>"

definition is_secure :: "Client \<Rightarrow> bool" where
  "is_secure c = (scheme (uri c) = str ''wss'')"

definition trigger :: "Client \<Rightarrow> hook \<Rightarrow> Client" where
  "trigger c h = c\<lparr>trace := trace c @ map (\<lambda>i. ExtensionCall i h) [0..<length (extensions c)]\<rparr>"

subsection \<open>Client.send_control and Client.close\<close>

text \<open>\<^verbatim>\<open>send_control\<close> as \<^verbatim>\<open>close\<close> calls it, with the class \<^verbatim>\<open>Close\<close>.\<close>

definition send_control_Close ::
  "Client \<Rightarrow> byte list option \<Rightarrow> int option \<Rightarrow> pystr option \<Rightarrow> outcome" where
  "send_control_Close c mask_arg code_arg reason_arg =
     (let c1 = trigger c (Before_control_frame Close_cls);
          r = Close_build (extensions c1) mask_arg code_arg reason_arg (entropy_src c1);
          c2 = c1\<lparr>entropy_src := snd r\<rparr>
      in case fst r of
           Inl e \<Rightarrow> (Some e, c2)
         | Inr bytes \<Rightarrow> (None, log c2 (SocketSend bytes)))"

text \<open>
  The conditions of \<^verbatim>\<open>close\<close> are the enum members themselves, not comparisons with
  \<^verbatim>\<open>self.status\<close>; they are kept as written.
\<close>

definition close :: "Client \<Rightarrow> int \<Rightarrow> pystr option \<Rightarrow> outcome" where
  "close c code_arg reason_arg =
     (if truthy_member CONNECTED then
        let r = (if \<not> is_secure c
                 then (Some (fst (urandom 4 (entropy_src c))), snd (urandom 4 (entropy_src c)))
                 else (None, entropy_src c))
        in then_do (send_control_Close (c\<lparr>entropy_src := snd r\<rparr>) (fst r) (Some code_arg) reason_arg)
                   (\<lambda>c'. (None, c'\<lparr>status := CLOSING\<rparr>))
      else if truthy_member CONNECTING then (None, log c SocketClose)
      else if truthy_member CLOSING then (None, log c SocketClose)
      else (Some AlreadyClosed, c))"

definition on_close :: "Client \<Rightarrow> Close \<Rightarrow> outcome" where
  "on_close c cl = close (c\<lparr>close_reason := Some cl, status := CLOSING\<rparr>) 1000 None"

subsection \<open>WSConstructor.verify\<close>

text \<open>
  \<^verbatim>\<open>frame.opcode not in FrameOpcode\<close> asks the enum class whether it contains the
  opcode. For a member the answer is yes. For \<^verbatim>\<open>None\<close>, which \<^verbatim>\<open>from_value\<close> returns
  for an unknown opcode, the answer depends on the interpreter: up to Python 3.7 a
  non-member is not contained; Python 3.8 to 3.11 raise \<^verbatim>\<open>TypeError\<close> for a non-member;
  from Python 3.12 the test is by value, and \<^verbatim>\<open>None\<close> is the value of \<^verbatim>\<open>RESERVED\<close>.
  The rule is a parameter of the model.
\<close>

datatype enum_containment = NonMemberFalse | NonMemberTypeError | ByValue

definition enum_contains :: "enum_containment \<Rightarrow> FrameOpcode option \<Rightarrow> error + bool" where
  "enum_contains rule x =
     (case x of
        Some m \<Rightarrow> Inr True
      | None \<Rightarrow>
          (case rule of
             NonMemberFalse \<Rightarrow> Inr False
           | NonMemberTypeError \<Rightarrow> Inl TypeError
           | ByValue \<Rightarrow> Inr (list_ex (\<lambda>m. opcode_value m = None) FrameOpcode_members)))"

text \<open>
  A \<^verbatim>\<open>ChainMap\<close> looks a key up in its mappings in order and answers from the first
  one that has the key.
\<close>

definition ChainMap_get :: "('k \<rightharpoonup> 'v) list \<Rightarrow> 'k \<Rightarrow> 'v option" where
  "ChainMap_get maps k = (case find (\<lambda>m. m k \<noteq> None) maps of None \<Rightarrow> None | Some m \<Rightarrow> m k)"

definition rsv_dict :: "Extension \<Rightarrow> (string \<rightharpoonup> bool)" where
  "rsv_dict r = [''R1'' \<mapsto> RSV1 r, ''R2'' \<mapsto> RSV2 r, ''R3'' \<mapsto> RSV3 r]"

definition falsy :: "bool option \<Rightarrow> bool" where
  "falsy v = (v = None \<or> v = Some False)"

definition sequencing_violation :: "Frame option \<Rightarrow> Frame \<Rightarrow> pystr option" where
  "sequencing_violation lf frame =
     (case lf of
        Some l \<Rightarrow>
          if opcode frame = Some CONTINUATION
             \<and> (opcode l = Some PING \<or> opcode l = Some PONG \<or> opcode l = Some CLOSE)
          then Some (str ''Ping, Pong, or Close frames cannot be fragmented.'')
          else if opcode frame = Some CONTINUATION \<and> final l
          then Some (str ''Sent continuation after final frame.'')
          else None
      | None \<Rightarrow>
          if opcode frame = Some CONTINUATION
          then Some (str ''Sent continuation without initial frame.'')
          else None)"

definition verify :: "enum_containment \<Rightarrow> Client \<Rightarrow> Frame \<Rightarrow> error + (bool \<times> pystr option)" where
  "verify rule c frame =
     (case sequencing_violation (last_frame (constructor c)) frame of
        Some msg \<Rightarrow> Inr (False, Some msg)
      | None \<Rightarrow>
          bind_e (enum_contains rule (opcode frame)) (\<lambda>known.
            if \<not> known then Inr (False, Some (str ''Unknown opcode used.''))
            else
              let used_rsv = map rsv_dict (extensions c) in
              if falsy (ChainMap_get used_rsv ''R1'') \<and> fst (rsvs frame)
              then Inr (False, Some (str ''Used frame-rsv1 without proper extension''))
              else if falsy (ChainMap_get used_rsv ''R2'') \<and> fst (snd (rsvs frame))
              then Inr (False, Some (str ''Used frame-rsv2 without proper extension''))
              else if falsy (ChainMap_get used_rsv ''R3'') \<and> snd (snd (rsvs frame))
              then Inr (False, Some (str ''Used frame-rsv3 without proper extension''))
              else Inr (True, None)))"

subsection \<open>WSConstructor.recv_frame\<close>

definition set_last_frame :: "Client \<Rightarrow> Frame \<Rightarrow> Client" where
  "set_last_frame c frame = c\<lparr>constructor := (constructor c)\<lparr>last_frame := Some frame\<rparr>\<rparr>"

definition append_frame :: "Client \<Rightarrow> Frame \<Rightarrow> Client" where
  "append_frame c frame =
     c\<lparr>constructor := (constructor c)\<lparr>frame_setup := frame_setup (constructor c) @ [frame]\<rparr>\<rparr>"

text \<open>The branches of \<^verbatim>\<open>recv_frame\<close> after a successful verification.\<close>

definition dispatch :: "Client \<Rightarrow> Frame \<Rightarrow> outcome" where
  "dispatch c frame =
     (if opcode frame = Some TEXT \<or> opcode frame = Some BINARY then
        let c1 = append_frame c frame in
        if final frame then
          (case Message_init (frame_setup (constructor c1)) of
             Inl e \<Rightarrow> (Some e, c1)
           | Inr msg \<Rightarrow> (None, log (trigger c1 (On_message msg)) (ClientCall (On_message msg))))
        else (None, c1)
      else if opcode frame = Some PING then
        let ping = ControlFrame_init frame
        in (None, log (trigger c (On_ping ping)) (ClientCall (On_ping ping)))
      else if opcode frame = Some PONG then
        let pong = ControlFrame_init frame
        in (None, log (trigger c (On_pong pong)) (ClientCall (On_pong pong)))
      else
        (case Close_init frame of
           Inl e \<Rightarrow> (Some e, c)
         | Inr cl \<Rightarrow> on_close (log (trigger c (On_close cl)) (ClientCall (On_close cl))) cl))"

definition recv_frame :: "enum_containment \<Rightarrow> Client \<Rightarrow> Frame \<Rightarrow> outcome" where
  "recv_frame rule c frame =
     (case verify rule c frame of
        Inl e \<Rightarrow> (Some e, c)
      | Inr (good_frame, rsn) \<Rightarrow>
          if \<not> good_frame then close c 1002 rsn
          else then_do (dispatch c frame) (\<lambda>c'. (None, set_last_frame c' frame)))"

text \<open>Receiving a sequence of frames, one after the other, while no exception is raised.\<close>

fun recv_frames :: "enum_containment \<Rightarrow> Client \<Rightarrow> Frame list \<Rightarrow> outcome" where
  "recv_frames rule c [] = (None, c)"
| "recv_frames rule c (f # fs) = then_do (recv_frame rule c f) (\<lambda>c'. recv_frames rule c' fs)"

section \<open>handshake.py\<close>

subsection \<open>SHA-1 and Base64\<close>

text \<open>
  \<^verbatim>\<open>hashlib.sha1\<close> (FIPS 180-4) on 32-bit words, held as integers below \<open>2 ^ 32\<close> with
  the wrap-around written out, and \<^verbatim>\<open>base64.b64encode\<close> (RFC 4648, with padding).
\<close>

definition w32 :: "int \<Rightarrow> int" where
  "w32 x = x mod 4294967296"

definition rotl32 :: "nat \<Rightarrow> int \<Rightarrow> int" where
  "rotl32 n x = w32 (x * 2 ^ n) + x div 2 ^ (32 - n)"

definition not32 :: "int \<Rightarrow> int" where
  "not32 x = 4294967295 - x"

definition sha1_pad :: "byte list \<Rightarrow> byte list" where
  "sha1_pad msg =
     msg @ [128] @ replicate (nat ((55 - int (length msg)) mod 64)) 0
         @ map (\<lambda>i. word_of_int (int (8 * length msg) div 256 ^ i)) [7, 6, 5, 4, 3, 2, 1, 0]"

fun be_words :: "byte list \<Rightarrow> int list" where
  "be_words (a # b # c # d # rest) =
     (uint a * 16777216 + uint b * 65536 + uint c * 256 + uint d) # be_words rest"
| "be_words _ = []"

fun expand :: "nat \<Rightarrow> int list \<Rightarrow> int list" where
  "expand 0 ws = ws"
| "expand (Suc n) ws =
     expand n (rotl32 1 (ws ! 2 XOR ws ! 7 XOR ws ! 13 XOR ws ! 15) # ws)"

definition schedule :: "int list \<Rightarrow> int list" where
  "schedule block = rev (expand 64 (rev block))"

type_synonym sha1_state = "int \<times> int \<times> int \<times> int \<times> int"

definition sha1_f :: "nat \<Rightarrow> int \<Rightarrow> int \<Rightarrow> int \<Rightarrow> int" where
  "sha1_f t b c d =
     (if t < 20 then (b AND c) OR (not32 b AND d)
      else if t < 40 then b XOR c XOR d
      else if t < 60 then (b AND c) OR (b AND d) OR (c AND d)
      else b XOR c XOR d)"

definition sha1_k :: "nat \<Rightarrow> int" where
  "sha1_k t = (if t < 20 then 0x5A827999 else if t < 40 then 0x6ED9EBA1
               else if t < 60 then 0x8F1BBCDC else 0xCA62C1D6)"

fun rounds :: "nat \<Rightarrow> int list \<Rightarrow> sha1_state \<Rightarrow> sha1_state" where
  "rounds t [] s = s"
| "rounds t (w # ws) (a, b, c, d, e) =
     rounds (Suc t) ws
       (w32 (rotl32 5 a + sha1_f t b c d + e + sha1_k t + w), a, rotl32 30 b, c, d)"

definition compress :: "sha1_state \<Rightarrow> int list \<Rightarrow> sha1_state" where
  "compress s block =
     (case (s, rounds 0 (schedule block) s) of
        ((h0, h1, h2, h3, h4), (a, b, c, d, e)) \<Rightarrow>
          (w32 (h0 + a), w32 (h1 + b), w32 (h2 + c), w32 (h3 + d), w32 (h4 + e)))"

fun chunks :: "nat \<Rightarrow> nat \<Rightarrow> 'a list \<Rightarrow> 'a list list" where
  "chunks 0 n xs = []"
| "chunks (Suc k) n xs = take n xs # chunks k n (drop n xs)"

definition word_bytes :: "int \<Rightarrow> byte list" where
  "word_bytes w = [word_of_int (w div 16777216), word_of_int (w div 65536),
                   word_of_int (w div 256), word_of_int w]"

definition sha1_init :: sha1_state where
  "sha1_init = (0x67452301, 0xEFCDAB89, 0x98BADCFE, 0x10325476, 0xC3D2E1F0)"

definition sha1 :: "byte list \<Rightarrow> byte list" where
  "sha1 msg =
     (let p = be_words (sha1_pad msg);
          blocks = chunks (length p div 16) 16 p
      in case foldl compress sha1_init blocks of
           (h0, h1, h2, h3, h4) \<Rightarrow> concat (map word_bytes [h0, h1, h2, h3, h4]))"

definition b64_alphabet :: string where
  "b64_alphabet = ''ABCDEFGHIJKLMNOPQRSTUVWXYZabcdefghijklmnopqrstuvwxyz0123456789+/''"

definition b64_char :: "int \<Rightarrow> byte" where
  "b64_char i = of_char (b64_alphabet ! nat (i mod 64))"

fun b64encode :: "byte list \<Rightarrow> byte list" where
  "b64encode (a # b # c # rest) =
     (let n = uint a * 65536 + uint b * 256 + uint c
      in b64_char (n div 262144) # b64_char (n div 4096) # b64_char (n div 64) # b64_char n
         # b64encode rest)"
| "b64encode [a, b] =
     (let n = uint a * 65536 + uint b * 256
      in [b64_char (n div 262144), b64_char (n div 4096), b64_char (n div 64), 61])"
| "b64encode [a] =
     (let n = uint a * 65536
      in [b64_char (n div 262144), b64_char (n div 4096), 61, 61])"
| "b64encode [] = []"

subsection \<open>ServerResponse and WebsocketUpgrade\<close>

text \<open>
  The header mapping of a response comes from the HTTP parser; the model takes its lookup
  as it is (\<open>None\<close> where the lookup raises \<^verbatim>\<open>KeyError\<close>).
\<close>

record ServerResponse =
  resp_code :: int
  resp_headers :: "pystr \<Rightarrow> pystr option"

record WebsocketUpgrade =
  http_method :: pystr
  req_path :: pystr
  protocol :: pystr
  key :: pystr
  secure :: bool
  headers :: "(pystr \<times> pystr option) list"
  upgrade_extensions :: "Extension list"

definition WS_VERSION :: pystr where
  "WS_VERSION = str ''13''"

definition WS_GUID :: "byte list" where
  "WS_GUID = map of_char ''258EAFA5-E914-47DA-95CA-C5AB0DC85B11''"

definition rstrip :: "nat \<Rightarrow> pystr \<Rightarrow> pystr" where
  "rstrip ch s = rev (dropWhile (\<lambda>c. c = ch) (rev s))"

definition endswith :: "pystr \<Rightarrow> pystr \<Rightarrow> bool" where
  "endswith s suffix = (length suffix \<le> length s \<and> drop (length s - length suffix) s = suffix)"

text \<open>\<^verbatim>\<open>a or b\<close> on optional strings: \<^verbatim>\<open>None\<close> and the empty string are false.\<close>

definition or_else :: "pystr option \<Rightarrow> pystr option \<Rightarrow> pystr option" where
  "or_else a b = (case a of None \<Rightarrow> b | Some s \<Rightarrow> if s = [] then b else a)"

fun join :: "pystr \<Rightarrow> pystr option list \<Rightarrow> error + pystr" where
  "join sep [] = Inr []"
| "join sep [None] = Inl TypeError"
| "join sep [Some x] = Inr x"
| "join sep (None # xs) = Inl TypeError"
| "join sep (Some x # xs) = bind_e (join sep xs) (\<lambda>r. Inr (x @ sep @ r))"

text \<open>
  The constructor draws the key from \<^verbatim>\<open>os.urandom(16)\<close>; the sixteen bytes are the
  argument \<open>rnd\<close>. Concatenating a string with \<^verbatim>\<open>None\<close> raises \<^verbatim>\<open>TypeError\<close>.
\<close>

definition WebsocketUpgrade_init ::
  "ParseResult \<Rightarrow> Extension list \<Rightarrow> pystr option \<Rightarrow> pystr option \<Rightarrow> byte list
   \<Rightarrow> error + WebsocketUpgrade" where
  "WebsocketUpgrade_init wss_uri exts host_arg origin_arg rnd =
     bind_e (utf8_decode (b64encode rnd)) (\<lambda>k.
     let sec = endswith (scheme wss_uri) (str ''ss'');
         p = rstrip 47 (path wss_uri)
     in
     bind_e (case or_else origin_arg None of
               Some s \<Rightarrow> Inr (Some s)
             | None \<Rightarrow>
                 (case hostname wss_uri of
                    None \<Rightarrow> Inl TypeError
                  | Some h \<Rightarrow> Inr (Some ((if sec then str ''https://'' else str ''http://'') @ h))))
       (\<lambda>orig.
     bind_e (if exts = [] then Inr []
             else bind_e (join (str '', '') (map NAME (filter NEGOTIATE exts)))
                         (\<lambda>names. Inr [(str ''Sec-WebSocket-Extensions'', Some names)]))
       (\<lambda>ext_header.
       Inr \<lparr>http_method = str ''GET'',
            req_path = (if p = [] then str ''/'' else p),
            protocol = str ''HTTP/1.1'',
            key = k,
            secure = sec,
            headers = [(str ''Host'', or_else host_arg (hostname wss_uri)),
                       (str ''Upgrade'', Some (str ''websocket'')),
                       (str ''Connection'', Some (str ''Upgrade'')),
                       (str ''Sec-Websocket-Key'', Some k),
                       (str ''Origin'', orig),
                       (str ''Sec-WebSocket-Version'', Some WS_VERSION)] @ ext_header,
            upgrade_extensions = exts\<rparr>)))"

definition expecting_key :: "WebsocketUpgrade \<Rightarrow> error + pystr" where
  "expecting_key u =
     bind_e (utf8_encode (key u)) (\<lambda>k. utf8_decode (b64encode (sha1 (k @ WS_GUID))))"

definition header_line :: "pystr \<times> pystr option \<Rightarrow> pystr option" where
  "header_line h = (case snd h of None \<Rightarrow> None | Some v \<Rightarrow> Some (fst h @ str '': '' @ v))"

definition build_request :: "WebsocketUpgrade \<Rightarrow> error + byte list" where
  "build_request u =
     bind_e (utf8_encode (http_method u @ str '' '' @ req_path u @ str '' '' @ protocol u)) (\<lambda>l.
     bind_e (join [13, 10] (map header_line (headers u))) (\<lambda>hs.
     bind_e (utf8_encode hs) (\<lambda>h. Inr (l @ [13, 10] @ h @ [13, 10, 13, 10]))))"

text \<open>
  \<^verbatim>\<open>str.lower\<close> and \<^verbatim>\<open>str.title\<close>. The model maps the ASCII letters, and KELVIN SIGN
  (U+212A), the one other character whose lowercase is an ASCII letter; every other
  character is left as it is and counts as uncased. Python maps further non-ASCII
  letters, but never to a string that equals one of the ASCII words compared in
  \<^verbatim>\<open>confirm\<close>, so the comparisons there come out the same.
\<close>

definition lower_char :: "nat \<Rightarrow> nat" where
  "lower_char c = (if 65 \<le> c \<and> c \<le> 90 then c + 32 else if c = 8490 then 107 else c)"

definition upper_char :: "nat \<Rightarrow> nat" where
  "upper_char c = (if 97 \<le> c \<and> c \<le> 122 then c - 32 else c)"

definition cased :: "nat \<Rightarrow> bool" where
  "cased c = ((65 \<le> c \<and> c \<le> 90) \<or> (97 \<le> c \<and> c \<le> 122))"

definition lower :: "pystr \<Rightarrow> pystr" where
  "lower s = map lower_char s"

fun title_from :: "bool \<Rightarrow> pystr \<Rightarrow> pystr" where
  "title_from previous_is_cased [] = []"
| "title_from previous_is_cased (c # cs) =
     (if previous_is_cased then lower_char c else upper_char c) # title_from (cased c) cs"

definition title :: "pystr \<Rightarrow> pystr" where
  "title s = title_from False s"

definition getitem :: "(pystr \<Rightarrow> pystr option) \<Rightarrow> pystr \<Rightarrow> error + pystr" where
  "getitem m k = (case m k of None \<Rightarrow> Inl KeyError | Some v \<Rightarrow> Inr v)"

definition assert_e :: "bool \<Rightarrow> error + unit" where
  "assert_e b = (if b then Inr () else Inl AssertionError)"

text \<open>The body of the \<^verbatim>\<open>try\<close> block of \<^verbatim>\<open>confirm\<close>, and the function with its handler.\<close>

definition confirm_try :: "WebsocketUpgrade \<Rightarrow> ServerResponse \<Rightarrow> error + unit" where
  "confirm_try u response =
     bind_e (getitem (resp_headers response) (str ''Upgrade'')) (\<lambda>a.
     bind_e (assert_e (lower a = str ''websocket'')) (\<lambda>_.
     bind_e (getitem (resp_headers response) (str ''Connection'')) (\<lambda>b.
     bind_e (assert_e (title b = str ''Upgrade'')) (\<lambda>_.
     bind_e (getitem (resp_headers response) (str ''Sec-Websocket-Accept'')) (\<lambda>c.
     bind_e (expecting_key u) (\<lambda>k.
     assert_e (c = k)))))))"

definition confirm :: "WebsocketUpgrade \<Rightarrow> ServerResponse \<Rightarrow> error + bool" where
  "confirm u response =
     (case confirm_try u response of
        Inr _ \<Rightarrow> Inr True
      | Inl AssertionError \<Rightarrow> Inr False
      | Inl KeyError \<Rightarrow> Inr False
      | Inl e \<Rightarrow> Inl e)"

section \<open>client.py: construction and connect\<close>

text \<open>
  \<^verbatim>\<open>Client.__init__\<close>, from the parsed URI. Instantiating an extension raises
  \<^verbatim>\<open>InvalidExtension\<close> when it is negotiable and has no name.
\<close>

definition Client_init ::
  "ParseResult \<Rightarrow> Extension list \<Rightarrow> pystr option \<Rightarrow> pystr option \<Rightarrow> entropy \<Rightarrow> error + Client" where
  "Client_init u exts origin_arg host_arg g =
     (if scheme u \<noteq> str ''wss'' \<and> scheme u \<noteq> str ''ws'' then Inl NotImplementedError
      else if list_ex (\<lambda>e. NEGOTIATE e \<and> NAME e = None) exts then Inl InvalidExtension
      else Inr \<lparr>uri = u, extensions = exts, origin = origin_arg, host = host_arg,
                status = CLOSED,
                constructor = \<lparr>frame_setup = [], last_frame = None\<rparr>,
                close_reason = None, entropy_src = g, trace = []\<rparr>)"

text \<open>
  \<^verbatim>\<open>Client.connect\<close>. The response that \<^verbatim>\<open>ServerResponse.load\<close> reads from the socket
  is an argument.
\<close>

definition handshake_failed :: "Client \<Rightarrow> error \<Rightarrow> outcome" where
  "handshake_failed c e = then_do (close c 1000 None) (\<lambda>c'. (Some e, c'))"

definition connect :: "Client \<Rightarrow> ServerResponse \<Rightarrow> outcome" where
  "connect c response =
     (let c1 = log (c\<lparr>status := CONNECTING\<rparr>) SocketConnect;
          r = urandom 16 (entropy_src c1);
          c2 = c1\<lparr>entropy_src := snd r\<rparr>
      in case WebsocketUpgrade_init (uri c2) (extensions c2) (host c2) (origin c2) (fst r) of
           Inl e \<Rightarrow> (Some e, c2)
         | Inr upgrade \<Rightarrow>
             (case build_request upgrade of
                Inl e \<Rightarrow> (Some e, c2)
              | Inr bytes \<Rightarrow>
                  let c3 = log c2 (SocketSend bytes) in
                  if resp_code response \<noteq> 101
                  then handshake_failed c3 (HandshakeFail_code (resp_code response))
                  else
                    (case confirm upgrade response of
                       Inl e \<Rightarrow> (Some e, c3)
                     | Inr ok \<Rightarrow>
                         if \<not> ok then handshake_failed c3 HandshakeFail_invalid
                         else
                           let c4 = log (c3\<lparr>status := CONNECTED\<rparr>) SpawnStart;
                               c5 = trigger c4 On_connection
                           in (None, log c5 (ClientCall On_connection)))))"

section \<open>Observations used in the statements\<close>

text \<open>The bytes of the last socket operation, when it was a send.\<close>

definition last_sent :: "Client \<Rightarrow> byte list option" where
  "last_sent c = (case rev (trace c) of SocketSend bs # _ \<Rightarrow> Some bs | _ \<Rightarrow> None)"

text \<open>
  The bytes are exactly one frame, which \<^verbatim>\<open>load\<close> decodes to a final Close frame whose
  payload is the two-byte big-endian status code followed by the UTF-8 bytes of the reason.
\<close>

definition is_close_frame :: "byte list \<Rightarrow> int \<Rightarrow> pystr \<Rightarrow> bool" where
  "is_close_frame bs code_n rsn =
     (case load \<lparr>closed = False, buf = bs\<rparr> of
        Inl e \<Rightarrow> False
      | Inr (g, s) \<Rightarrow>
          buf s = [] \<and> final g \<and> opcode g = Some CLOSE
          \<and> (case utf8_encode rsn of
                Inl e \<Rightarrow> False
              | Inr r \<Rightarrow> payload g = be_bytes 2 code_n @ r))"

text \<open>The socket was closed at some point of the trace.\<close>

definition socket_closed :: "Client \<Rightarrow> bool" where
  "socket_closed c = (SocketClose \<in> set (trace c))"

text \<open>
  The operation returned normally, left the status at Closing, and the last thing it did
  to the socket was to send a Close frame with the given code and reason.
\<close>

definition closed_with :: "outcome \<Rightarrow> int \<Rightarrow> pystr \<Rightarrow> bool" where
  "closed_with out code_n rsn =
     (case out of
        (Some e, c') \<Rightarrow> False
      | (None, c') \<Rightarrow>
          status c' = CLOSING
          \<and> (case last_sent c' of None \<Rightarrow> False | Some bs \<Rightarrow> is_close_frame bs code_n rsn))"

text \<open>The events that deliver a message, and those that deliver a Close.\<close>

fun is_message_event :: "event \<Rightarrow> bool" where
  "is_message_event (ExtensionCall i (On_message m)) = True"
| "is_message_event (ClientCall (On_message m)) = True"
| "is_message_event _ = False"

fun is_close_event :: "event \<Rightarrow> bool" where
  "is_close_event (ExtensionCall i (On_close cl)) = True"
| "is_close_event (ClientCall (On_close cl)) = True"
| "is_close_event _ = False"

section \<open>Example inputs\<close>

definition example_uri :: ParseResult where
  "example_uri = \<lparr>scheme = str ''ws'', hostname = Some (str ''example.org''), path = str ''/chat''\<rparr>"

definition example_entropy :: entropy where
  "example_entropy = (\<lambda>i. of_nat i)"

text \<open>A connection as \<^verbatim>\<open>Client("ws://example.org/chat")\<close> constructs it.\<close>

definition example_client :: Client where
  "example_client =
     \<lparr>uri = example_uri, extensions = [], origin = None, host = None, status = CLOSED,
      constructor = \<lparr>frame_setup = [], last_frame = None\<rparr>,
      close_reason = None, entropy_src = example_entropy, trace = []\<rparr>"

text \<open>Two extensions: the first claims no reserved bit, the second claims bit 1.\<close>

definition plain_extension :: Extension where
  "plain_extension =
     \<lparr>RSV1 = False, RSV2 = False, RSV3 = False, NAME = None, NEGOTIATE = False,
      should_set = (\<lambda>i cls. False)\<rparr>"

definition rsv1_extension :: Extension where
  "rsv1_extension = plain_extension\<lparr>RSV1 := True\<rparr>"

definition two_extension_client :: Client where
  "two_extension_client = example_client\<lparr>extensions := [plain_extension, rsv1_extension]\<rparr>"

definition data_frame :: "bool \<Rightarrow> FrameOpcode \<Rightarrow> byte list \<Rightarrow> Frame" where
  "data_frame fin oc p =
     \<lparr>final = fin, rsvs = (False, False, False), opcode = Some oc, payload = p, mask_key = None\<rparr>"


text \<open>A response with status 404 and no headers, and one that accepts the sample key.\<close>

definition not_found_response :: ServerResponse where
  "not_found_response = \<lparr>resp_code = 404, resp_headers = (\<lambda>k. None)\<rparr>"

definition accepting_response :: ServerResponse where
  "accepting_response =
     \<lparr>resp_code = 101,
      resp_headers = (\<lambda>k. if k = str ''Upgrade'' then Some (str ''WebSocket'')
                          else if k = str ''Connection'' then Some (str ''upgrade'')
                          else if k = str ''Sec-Websocket-Accept''
                          then Some (str ''s3pPLMBiTxaQ9kYGzzhZRbK+xOo='')
                          else None)\<rparr>"

text \<open>
  The upgrade request of the example connection, with the key drawn from the example
  entropy (the bytes 0 to 15), and its bytes on the wire.
\<close>

definition example_upgrade :: WebsocketUpgrade where
  "example_upgrade =
     \<lparr>http_method = str ''GET'', req_path = str ''/chat'', protocol = str ''HTTP/1.1'',
      key = str ''AAECAwQFBgcICQoLDA0ODw=='', secure = False,
      headers = [(str ''Host'', Some (str ''example.org'')),
                 (str ''Upgrade'', Some (str ''websocket'')),
                 (str ''Connection'', Some (str ''Upgrade'')),
                 (str ''Sec-Websocket-Key'', Some (str ''AAECAwQFBgcICQoLDA0ODw=='')),
                 (str ''Origin'', Some (str ''http://example.org'')),
                 (str ''Sec-WebSocket-Version'', Some (str ''13''))],
      upgrade_extensions = []\<rparr>"

definition example_request :: "byte list" where
  "example_request =
     map of_char ''GET /chat HTTP/1.1'' @ [13, 10]
     @ map of_char ''Host: example.org'' @ [13, 10]
     @ map of_char ''Upgrade: websocket'' @ [13, 10]
     @ map of_char ''Connection: Upgrade'' @ [13, 10]
     @ map of_char ''Sec-Websocket-Key: AAECAwQFBgcICQoLDA0ODw=='' @ [13, 10]
     @ map of_char ''Origin: http://example.org'' @ [13, 10]
     @ map of_char ''Sec-WebSocket-Version: 13'' @ [13, 10, 13, 10]"

text \<open>A frame as \<^verbatim>\<open>load\<close> decodes it from the bytes 83 00: final, opcode field 3.\<close>

definition unknown_opcode_frame :: Frame where
  "unknown_opcode_frame =
     \<lparr>final = True, rsvs = (False, False, False), opcode = from_value 3, payload = [],
      mask_key = None\<rparr>"

section \<open>Lemmas about the frame codec\<close>

lemma bind_e_simps [simp]:
  "bind_e (Inl e) k = Inl e" "bind_e (Inr x) k = k x"
  by (simp_all add: bind_e_def)

lemma not_bit7: "0 \<le> x \<Longrightarrow> x < 128 \<Longrightarrow> \<not> bit (x::int) 7"
  by (simp add: bit_iff_odd)

lemma low7_and_128: "0 \<le> x \<Longrightarrow> x < 128 \<Longrightarrow> (x::int) AND 128 = 0"
  using and_exp_eq_0_iff_not_bit [of x 7] not_bit7 [of x] by simp

lemma low7_or_128: "0 \<le> x \<Longrightarrow> x < 128 \<Longrightarrow> (x::int) OR 128 = x + 128"
  using disjunctive_add_eq_or [of x 128] low7_and_128 [of x] by simp

lemma or_and_same: "((x::int) OR y) AND y = y"
  by (auto simp: bit_eq_iff bit_simps)

lemma or_and_not_same: "((x::int) OR y) AND NOT y = x AND NOT y"
  by (auto simp: bit_eq_iff bit_simps)

lemma and_not_disjoint: "(x::int) AND y = 0 \<Longrightarrow> x AND NOT y = x"
  by (auto simp: bit_eq_iff bit_simps)

lemma hi_and_128: "0 \<le> x \<Longrightarrow> x < 128 \<Longrightarrow> (x + 128 ::int) AND 128 = 128"
  using low7_or_128 [of x] or_and_same [of x 128] by simp

lemma lo_and_not_128: "0 \<le> x \<Longrightarrow> x < 128 \<Longrightarrow> (x ::int) AND NOT 128 = x"
  using and_not_disjoint [of x 128] low7_and_128 [of x] by simp

lemma hi_and_not_128: "0 \<le> x \<Longrightarrow> x < 128 \<Longrightarrow> (x + 128 ::int) AND NOT 128 = x"
  using low7_or_128 [of x] or_and_not_same [of x 128] lo_and_not_128 [of x] by simp

text \<open>
  The first byte of a frame with one of the six numbered opcodes fits a byte, and
  \<^verbatim>\<open>load\<close> reads the final bit, the reserved bits and the opcode back from it.
\<close>

lemma header_byte_known:
  assumes "opcode f = Some oc" "oc \<noteq> RESERVED"
  shows "\<exists>h. header_byte f = Inr h \<and> 0 \<le> h \<and> h < 256
           \<and> (h AND 128 \<noteq> 0) = final f
           \<and> (h AND 64 \<noteq> 0, h AND 32 \<noteq> 0, h AND 16 \<noteq> 0) = rsvs f
           \<and> from_value (h AND 15) = Some oc"
proof -
  obtain a b c where r: "rsvs f = (a, b, c)" by (cases "rsvs f") auto
  show ?thesis using assms r
    by (cases oc; cases "final f"; cases a; cases b; cases c)
       (simp_all add: header_byte_def from_value_def FrameOpcode_members_def)
qed

lemma pack_B_byte: "0 \<le> h \<Longrightarrow> h < 256 \<Longrightarrow> pack FmtB h = Inr [word_of_int h]"
  by (simp add: pack_def)

lemma unpack_B_single: "unpack FmtB [b] = Inr (uint b)"
  by (simp add: unpack_def be_int_def)

lemma unpack_from_B_open:
  "\<not> closed s \<Longrightarrow> buf s = b # bs \<Longrightarrow> unpack_from FmtB s = Inr (uint b, s\<lparr>buf := bs\<rparr>)"
  by (simp add: unpack_from_def read_def unpack_B_single)

lemma uint_byte_of_int: "0 \<le> h \<Longrightarrow> h < 256 \<Longrightarrow> uint (word_of_int h :: byte) = h"
  by (simp add: uint_word_of_int)

text \<open>
  What decoding makes of an encoded unmasked frame whose payload has between 126 and
  65535 bytes: the high byte of the two-byte length is taken for the length, and the
  payload is cut from the low length byte followed by the real payload.
\<close>

lemma load_126_unmasked:
  assumes oc: "opcode f = Some oc" "oc \<noteq> RESERVED"
    and m: "mask_key f = None"
    and n: "126 \<le> length (payload f)" "length (payload f) \<le> 65535"
  shows "decode_encoded f =
         Inr (f\<lparr>payload := take (length (payload f) div 256)
                               (word_of_int (int (length (payload f))) # payload f)\<rparr>)"
proof -
  obtain h where h: "header_byte f = Inr h" "0 \<le> h" "h < 256"
      "(h AND 128 \<noteq> 0) = final f"
      "(h AND 64 \<noteq> 0, h AND 32 \<noteq> 0, h AND 16 \<noteq> 0) = rsvs f"
      "from_value (h AND 15) = Some oc"
    using header_byte_known [OF oc] by blast
  let ?n = "length (payload f)"
  have hi: "int ?n div 256 < 256" "0 \<le> int ?n div 256" using n by auto
  have lb: "length_bytes ?n None = Inr [126, word_of_int (int ?n div 256), word_of_int (int ?n)]"
    using n by (simp add: length_bytes_def mask_flag_def pack_def numeral_2_eq_2)
  have b: "build f = Inr (word_of_int h # 126 # word_of_int (int ?n div 256)
                          # word_of_int (int ?n) # payload f)"
    using h lb m by (simp add: build_def pack_B_byte)
  have k: "nat (int ?n div 256) = ?n div 256"
    by (simp add: zdiv_int [symmetric] del: zdiv_int)
  have sz: "\<not> (9223372036854775808::nat) \<le> ?n div 256"
    using n by simp
  show ?thesis
    unfolding decode_encoded_def b
    using h oc m hi sz
    by (simp add: load_def unpack_from_B_open uint_byte_of_int Let_def read_def k)
qed

text \<open>Masking twice with a four-byte key gives the content back.\<close>

lemma apply_mask_from_twice:
  "4 \<le> length m \<Longrightarrow>
   \<exists>r. apply_mask_from i m cs = Inr r \<and> length r = length cs \<and> apply_mask_from i m r = Inr cs"
proof (induction cs arbitrary: i)
  case Nil
  then show ?case by simp
next
  case (Cons c cs)
  from Cons.IH [OF Cons.prems, of "Suc i"] obtain r where
    r: "apply_mask_from (Suc i) m cs = Inr r" "length r = length cs"
       "apply_mask_from (Suc i) m r = Inr cs"
    by blast
  have lt: "i mod 4 < length m" using Cons.prems by (simp add: less_le_trans [of "i mod 4" 4])
  show ?case using r lt by (simp add: xor.assoc)
qed

lemma apply_mask_twice:
  assumes "4 \<le> length m"
  obtains r where "apply_mask m cs = Inr r" "length r = length cs" "apply_mask m r = Inr cs"
  using apply_mask_from_twice [OF assms, of 0 cs] unfolding apply_mask_def by blast

lemma lo_and_m129: "0 \<le> x \<Longrightarrow> x < 128 \<Longrightarrow> (x ::int) AND - 129 = x"
  using lo_and_not_128 [of x] by simp

lemma hi_and_m129: "0 \<le> x \<Longrightarrow> x < 128 \<Longrightarrow> (x + 128 ::int) AND - 129 = x"
  using hi_and_not_128 [of x] by simp

lemma pack_B_uint:
  assumes "0 \<le> h" "h < 256"
  obtains b where "pack FmtB h = Inr [b]" "uint b = h"
  using assms pack_B_byte [of h] uint_byte_of_int [of h] by blast

text \<open>
  The round trip holds in the first length class: a frame with a numbered opcode, a payload
  of at most 125 bytes, and no mask or a four-byte mask is decoded to itself.
\<close>

lemma roundtrip_small_load:
  assumes oc: "opcode f = Some oc" "oc \<noteq> RESERVED"
    and n: "length (payload f) \<le> 125"
    and m: "mask_key f = None \<or> (\<exists>k. mask_key f = Some k \<and> length k = 4)"
  shows "\<exists>bs. build f = Inr bs
              \<and> load \<lparr>closed = False, buf = bs\<rparr> = Inr (f, \<lparr>closed = False, buf = []\<rparr>)"
proof -
  obtain h where h: "header_byte f = Inr h" "0 \<le> h" "h < 256"
      "(h AND 128 \<noteq> 0) = final f"
      "(h AND 64 \<noteq> 0, h AND 32 \<noteq> 0, h AND 16 \<noteq> 0) = rsvs f"
      "from_value (h AND 15) = Some oc"
    using header_byte_known [OF oc] by blast
  obtain b0 where b0: "pack FmtB h = Inr [b0]" "uint b0 = h"
    using pack_B_uint [of h] h by blast
  define pl where "pl = int (length (payload f))"
  have n': "0 \<le> pl" "pl < 128" "pl \<noteq> 126" "pl \<noteq> 127" "nat pl = length (payload f)"
      "\<not> (9223372036854775808::nat) \<le> length (payload f)"
    using n by (auto simp: pl_def)
  from m show ?thesis
  proof
    assume none: "mask_key f = None"
    obtain b1 where b1: "pack FmtB pl = Inr [b1]" "uint b1 = pl"
      using pack_B_uint [of pl] n' by force
    have lb: "length_bytes (length (payload f)) None = Inr [b1]"
      using n b1 by (simp add: length_bytes_def mask_flag_def pl_def)
    have b: "build f = Inr (b0 # b1 # payload f)"
      using h b0 lb none by (simp add: build_def)
    have l: "load \<lparr>closed = False, buf = b0 # b1 # payload f\<rparr>
             = Inr (f, \<lparr>closed = False, buf = []\<rparr>)"
      using h oc none n' b0 b1
      by (simp add: load_def unpack_from_B_open Let_def read_def low7_and_128 lo_and_m129)
    show ?thesis
      using b l by simp
  next
    assume "\<exists>k. mask_key f = Some k \<and> length k = 4"
    then obtain k where k: "mask_key f = Some k" "length k = 4" by blast
    obtain r where r: "apply_mask k (payload f) = Inr r" "length r = length (payload f)"
        "apply_mask k r = Inr (payload f)"
      using apply_mask_twice [of k "payload f"] k by auto
    obtain b1 where b1: "pack FmtB (pl + 128) = Inr [b1]" "uint b1 = pl + 128"
      using pack_B_uint [of "pl + 128"] n' by force
    have lb: "length_bytes (length (payload f)) (Some k) = Inr [b1]"
      using n b1 n' low7_or_128 [of pl] by (simp add: length_bytes_def mask_flag_def pl_def)
    have b: "build f = Inr (b0 # b1 # k @ r)"
      using h b0 lb k r by (simp add: build_def)
    have l: "load \<lparr>closed = False, buf = b0 # b1 # k @ r\<rparr>
             = Inr (f, \<lparr>closed = False, buf = []\<rparr>)"
      using h oc k n' r b0 b1
      by (simp add: load_def unpack_from_B_open Let_def read_def hi_and_128 hi_and_m129)
    show ?thesis
      using b l by simp
  qed
qed

lemma roundtrip_small:
  assumes "opcode f = Some oc" "oc \<noteq> RESERVED" "length (payload f) \<le> 125"
    and "mask_key f = None \<or> (\<exists>k. mask_key f = Some k \<and> length k = 4)"
  shows "decode_encoded f = Inr f"
  using roundtrip_small_load [OF assms] by (auto simp: decode_encoded_def)

text \<open>
  The round trip also holds in the third length class: a payload of at least 65536 bytes
  (and fewer than \<open>2 ^ 63\<close>, the largest size \<^verbatim>\<open>read\<close> accepts) is written with an
  eight-byte length, which \<^verbatim>\<open>load\<close> reads with \<^verbatim>\<open>!Q\<close>.
\<close>

lemma be_int_snoc: "be_int (bs @ [b]) = be_int bs * 256 + uint b"
  by (simp add: be_int_def)

lemma be_int_be_bytes: "0 \<le> n \<Longrightarrow> be_int (be_bytes k n) = n mod 256 ^ k"
proof (induction k arbitrary: n)
  case 0
  then show ?case by (simp add: be_int_def)
next
  case (Suc k)
  have "0 \<le> n div 256" using Suc.prems by simp
  then have "be_int (be_bytes k (n div 256)) = n div 256 mod 256 ^ k"
    by (rule Suc.IH)
  moreover have "uint (word_of_int n :: byte) = n mod 256"
    by (simp add: uint_word_of_int)
  ultimately show ?case
    using zmod_zmult2_eq [of "256 ^ k" n 256] by (simp add: be_int_snoc)
qed

lemma length_be_bytes [simp]: "length (be_bytes k n) = k"
  by (induction k arbitrary: n) simp_all

lemma unpack_from_Q_open:
  assumes "\<not> closed s" "buf s = be_bytes 8 n @ rest" "0 \<le> n" "n < 2 ^ 64"
  shows "unpack_from FmtQ s = Inr (n, s\<lparr>buf := rest\<rparr>)"
  using assms be_int_be_bytes [of n 8]
  by (simp add: unpack_from_def read_def unpack_def)

lemma roundtrip_large_load:
  assumes oc: "opcode f = Some oc" "oc \<noteq> RESERVED"
    and n: "65536 \<le> length (payload f)" "length (payload f) < 2 ^ 63"
    and m: "mask_key f = None \<or> (\<exists>k. mask_key f = Some k \<and> length k = 4)"
  shows "\<exists>bs. build f = Inr bs
              \<and> load \<lparr>closed = False, buf = bs\<rparr> = Inr (f, \<lparr>closed = False, buf = []\<rparr>)"
proof -
  obtain h where h: "header_byte f = Inr h" "0 \<le> h" "h < 256"
      "(h AND 128 \<noteq> 0) = final f"
      "(h AND 64 \<noteq> 0, h AND 32 \<noteq> 0, h AND 16 \<noteq> 0) = rsvs f"
      "from_value (h AND 15) = Some oc"
    using header_byte_known [OF oc] by blast
  obtain b0 where b0: "pack FmtB h = Inr [b0]" "uint b0 = h"
    using pack_B_uint [of h] h by blast
  define pl where "pl = int (length (payload f))"
  have n': "0 \<le> pl" "pl < 2 ^ 64" "nat pl = length (payload f)"
      "\<not> (9223372036854775808::nat) \<le> length (payload f)"
    using n by (auto simp: pl_def)
  have pq: "pack FmtQ pl = Inr (be_bytes 8 pl)"
    using n' by (simp add: pack_def)
  have big: "\<not> length (payload f) \<le> 125" "\<not> length (payload f) \<le> 65535"
    using n by auto
  from m show ?thesis
  proof
    assume none: "mask_key f = None"
    obtain b1 where b1: "pack FmtB 127 = Inr [b1]" "uint b1 = 127"
      using pack_B_uint [of 127] by force
    have lb: "length_bytes (length (payload f)) None = Inr (b1 # be_bytes 8 pl)"
      using big b1 pq by (simp add: length_bytes_def mask_flag_def pl_def)
    have b: "build f = Inr (b0 # b1 # be_bytes 8 pl @ payload f)"
      using h b0 lb none by (simp add: build_def)
    have q: "unpack_from FmtQ \<lparr>closed = False, buf = be_bytes 8 pl @ payload f\<rparr>
             = Inr (pl, \<lparr>closed = False, buf = payload f\<rparr>)"
      using unpack_from_Q_open [of "\<lparr>closed = False, buf = be_bytes 8 pl @ payload f\<rparr>" pl "payload f"] n'
      by simp
    have l: "load \<lparr>closed = False, buf = b0 # b1 # be_bytes 8 pl @ payload f\<rparr>
             = Inr (f, \<lparr>closed = False, buf = []\<rparr>)"
      using h oc none n' b0 b1 q
      by (simp add: load_def unpack_from_B_open Let_def read_def)
    show ?thesis
      using b l by simp
  next
    assume "\<exists>k. mask_key f = Some k \<and> length k = 4"
    then obtain k where k: "mask_key f = Some k" "length k = 4" by blast
    obtain r where r: "apply_mask k (payload f) = Inr r" "length r = length (payload f)"
        "apply_mask k r = Inr (payload f)"
      using apply_mask_twice [of k "payload f"] k by auto
    obtain b1 where b1: "pack FmtB 255 = Inr [b1]" "uint b1 = 255"
      using pack_B_uint [of 255] by force
    have lb: "length_bytes (length (payload f)) (Some k) = Inr (b1 # be_bytes 8 pl)"
      using big b1 pq by (simp add: length_bytes_def mask_flag_def pl_def)
    have b: "build f = Inr (b0 # b1 # be_bytes 8 pl @ k @ r)"
      using h b0 lb k r by (simp add: build_def)
    have q: "unpack_from FmtQ \<lparr>closed = False, buf = be_bytes 8 pl @ k @ r\<rparr>
             = Inr (pl, \<lparr>closed = False, buf = k @ r\<rparr>)"
      using unpack_from_Q_open [of "\<lparr>closed = False, buf = be_bytes 8 pl @ k @ r\<rparr>" pl "k @ r"] n'
      by simp
    have l: "load \<lparr>closed = False, buf = b0 # b1 # be_bytes 8 pl @ k @ r\<rparr>
             = Inr (f, \<lparr>closed = False, buf = []\<rparr>)"
      using h oc k n' r b0 b1 q
      by (simp add: load_def unpack_from_B_open Let_def read_def)
    show ?thesis
      using b l by simp
  qed
qed

lemma roundtrip_large:
  assumes "opcode f = Some oc" "oc \<noteq> RESERVED"
    and "65536 \<le> length (payload f)" "length (payload f) < 2 ^ 63"
    and "mask_key f = None \<or> (\<exists>k. mask_key f = Some k \<and> length k = 4)"
  shows "decode_encoded f = Inr f"
  using roundtrip_large_load [OF assms] by (auto simp: decode_encoded_def)

section \<open>Lemmas about Client.close\<close>

lemma utf8_encode_ascii:
  "\<forall>x\<in>set r. x < 128 \<Longrightarrow> utf8_encode r = Inr (map of_nat r)"
  by (induction r) (simp_all add: utf8_encode_char_def)

lemma length_urandom [simp]: "length (fst (urandom n g)) = n"
  by (simp add: urandom_def)

lemma then_do_simps [simp]:
  "then_do (Some e, c) k = (Some e, c)" "then_do (None, c) k = k c"
  by (simp_all add: then_do_def)

lemma trigger_fields [simp]:
  "status (trigger c h) = status c" "constructor (trigger c h) = constructor c"
  "extensions (trigger c h) = extensions c" "entropy_src (trigger c h) = entropy_src c"
  "uri (trigger c h) = uri c" "close_reason (trigger c h) = close_reason c"
  by (simp_all add: trigger_def)

lemma log_fields [simp]:
  "status (log c ev) = status c" "constructor (log c ev) = constructor c"
  "extensions (log c ev) = extensions c" "entropy_src (log c ev) = entropy_src c"
  "uri (log c ev) = uri c" "close_reason (log c ev) = close_reason c"
  "trace (log c ev) = trace c @ [ev]"
  by (simp_all add: log_def)

lemma last_sent_log [simp]: "last_sent (log c (SocketSend bs)) = Some bs"
  by (simp add: last_sent_def)

lemma last_sent_status [simp]: "last_sent (c\<lparr>status := s\<rparr>) = last_sent c"
  by (simp add: last_sent_def)

text \<open>
  The Close frame that \<^verbatim>\<open>close\<close> builds for a status code between 1 and 65535 and an
  ASCII reason of at most 123 characters: it is built without an exception, and decoding
  the bytes gives the frame back.
\<close>

lemma Close_payload_ascii:
  assumes "0 < n" "n < 65536" "\<forall>x\<in>set r. x < 128"
  shows "Close_payload (Some n) (Some r) = Inr (be_bytes 2 n @ map of_nat r)"
  using assms by (simp add: Close_payload_def pack_def utf8_encode_ascii)

lemma Close_payload_no_reason:
  assumes "0 < n" "n < 65536"
  shows "Close_payload (Some n) None = Inr (be_bytes 2 n)"
  using assms by (simp add: Close_payload_def pack_def)

lemma ControlFrame_build_Close:
  assumes p: "p \<noteq> []" "length p \<le> 125"
    and m: "mask_arg = None \<or> (\<exists>k. mask_arg = Some k \<and> k \<noteq> [])"
  shows "\<exists>bs g' mk. ControlFrame_build Close_cls exts mask_arg (Some p) g = (Inr bs, g')
           \<and> load \<lparr>closed = False, buf = bs\<rparr>
               = Inr (\<lparr>final = True, rsvs = build_rsvs exts (Control Close_cls),
                        opcode = Some CLOSE, payload = p, mask_key = mk\<rparr>,
                      \<lparr>closed = False, buf = []\<rparr>)"
proof -
  define mk where "mk = (if \<not> truthy_bytes mask_arg then None else Some (fst (urandom 4 g)))"
  define fr where "fr = \<lparr>final = True, rsvs = build_rsvs exts (Control Close_cls),
                          opcode = Some CLOSE, payload = p, mask_key = mk\<rparr>"
  have "mask_key fr = None \<or> (\<exists>k. mask_key fr = Some k \<and> length k = 4)"
    by (simp add: fr_def mk_def)
  moreover have "opcode fr = Some CLOSE" "length (payload fr) \<le> 125"
    using p by (simp_all add: fr_def)
  ultimately obtain bs where bs: "build fr = Inr bs"
      "load \<lparr>closed = False, buf = bs\<rparr> = Inr (fr, \<lparr>closed = False, buf = []\<rparr>)"
    using roundtrip_small_load [of fr CLOSE] by auto
  have "fst (ControlFrame_build Close_cls exts mask_arg (Some p) g) = build fr"
    using p by (simp add: ControlFrame_build_def fr_def mk_def truthy_bytes_def Let_def)
  then show ?thesis using bs unfolding fr_def
    by (metis prod.collapse)
qed

lemma close_sends:
  assumes n: "0 < n" "n < 65536"
    and r: "rsn = None \<or> (\<exists>r. rsn = Some r \<and> (\<forall>x\<in>set r. x < 128) \<and> length r \<le> 123)"
  shows "\<exists>c' bs. close c n rsn = (None, c')
           \<and> status c' = CLOSING
           \<and> constructor c' = constructor c
           \<and> close_reason c' = close_reason c
           \<and> extensions c' = extensions c
           \<and> uri c' = uri c
           \<and> trace c' = trace (trigger c (Before_control_frame Close_cls)) @ [SocketSend bs]
           \<and> is_close_frame bs n (case rsn of None \<Rightarrow> [] | Some r \<Rightarrow> r)"
proof -
  define rs where "rs = (case rsn of None \<Rightarrow> [] | Some r \<Rightarrow> r)"
  have ascii: "\<forall>x\<in>set rs. x < 128" and len: "length rs \<le> 123"
    using r by (auto simp: rs_def)
  define p where "p = be_bytes 2 n @ map of_nat rs"
  have pl: "Close_payload (Some n) rsn = Inr p"
    using r n by (auto simp: p_def rs_def Close_payload_ascii Close_payload_no_reason)
  have p: "p \<noteq> []" "length p \<le> 125"
    using len by (simp_all add: p_def numeral_2_eq_2)
  define g0 where "g0 = entropy_src c"
  define marg where "marg = (if \<not> is_secure c then Some (fst (urandom 4 g0)) else None)"
  define g1 where "g1 = (if \<not> is_secure c then snd (urandom 4 g0) else g0)"
  have marg: "marg = None \<or> (\<exists>k. marg = Some k \<and> k \<noteq> [])"
    by (auto simp: marg_def urandom_def upt_rec)
  obtain bs g' mk where b:
      "ControlFrame_build Close_cls (extensions c) marg (Some p) g1 = (Inr bs, g')"
      "load \<lparr>closed = False, buf = bs\<rparr>
         = Inr (\<lparr>final = True, rsvs = build_rsvs (extensions c) (Control Close_cls),
                  opcode = Some CLOSE, payload = p, mask_key = mk\<rparr>,
                \<lparr>closed = False, buf = []\<rparr>)"
    using ControlFrame_build_Close [OF p marg] by blast
  have cb: "Close_build (extensions c) marg (Some n) rsn g1 = (Inr bs, g')"
    using pl b by (simp add: Close_build_def)
  have icf: "is_close_frame bs n rs"
    using b ascii by (simp add: is_close_frame_def utf8_encode_ascii p_def)
  have sc: "send_control_Close (c\<lparr>entropy_src := g1\<rparr>) marg (Some n) rsn
            = (None, log (trigger (c\<lparr>entropy_src := g1\<rparr>) (Before_control_frame Close_cls)
                           \<lparr>entropy_src := g'\<rparr>) (SocketSend bs))"
    using cb by (simp add: send_control_Close_def Let_def)
  have cl: "close c n rsn
            = (None, (log (trigger (c\<lparr>entropy_src := g1\<rparr>) (Before_control_frame Close_cls)
                           \<lparr>entropy_src := g'\<rparr>) (SocketSend bs))\<lparr>status := CLOSING\<rparr>)"
    using sc
    by (cases "is_secure c") (simp_all add: close_def truthy_member_def Let_def marg_def g1_def g0_def)
  show ?thesis
    unfolding cl using icf by (simp add: rs_def trigger_def log_def)
qed

section \<open>Lemmas about verify and recv_frame\<close>

lemma close_preserves:
  "constructor (snd (close c n r)) = constructor c"
  "extensions (snd (close c n r)) = extensions c"
  by (simp_all add: close_def send_control_Close_def truthy_member_def Let_def then_do_def
                    trigger_def log_def split: sum.splits prod.splits option.splits)

lemma verify_cong:
  assumes "last_frame (constructor c') = last_frame (constructor c)"
    and "extensions c' = extensions c"
  shows "verify rule c' g = verify rule c g"
  unfolding verify_def assms by (rule refl)

lemma ascii_str: "\<forall>x\<in>set (str s). x < 256"
  by (simp add: str_def)

lemma closed_with_close:
  assumes "\<forall>x\<in>set r. x < 128" "length r \<le> 123"
  shows "closed_with (close c 1002 (Some r)) 1002 r"
    and "trace (snd (close c 1002 (Some r)))
         = trace (trigger c (Before_control_frame Close_cls))
           @ [SocketSend (the (last_sent (snd (close c 1002 (Some r)))))]"
proof -
  obtain c' bs where c': "close c 1002 (Some r) = (None, c')" "status c' = CLOSING"
      "trace c' = trace (trigger c (Before_control_frame Close_cls)) @ [SocketSend bs]"
      "is_close_frame bs 1002 r"
    using close_sends [of 1002 "Some r" c] assms by auto
  have ls: "last_sent c' = Some bs" using c'(3) by (simp add: last_sent_def)
  show "closed_with (close c 1002 (Some r)) 1002 r"
    using c' ls by (simp add: closed_with_def)
  show "trace (snd (close c 1002 (Some r)))
         = trace (trigger c (Before_control_frame Close_cls))
           @ [SocketSend (the (last_sent (snd (close c 1002 (Some r)))))]"
    using c' ls by simp
qed

text \<open>The seven reasons that \<^verbatim>\<open>verify\<close> can give are ASCII and short.\<close>

lemma reason_ok:
  "\<forall>x\<in>set (str ''Ping, Pong, or Close frames cannot be fragmented.''). x < 128"
  "length (str ''Ping, Pong, or Close frames cannot be fragmented.'') \<le> 123"
  "\<forall>x\<in>set (str ''Sent continuation after final frame.''). x < 128"
  "length (str ''Sent continuation after final frame.'') \<le> 123"
  "\<forall>x\<in>set (str ''Sent continuation without initial frame.''). x < 128"
  "length (str ''Sent continuation without initial frame.'') \<le> 123"
  "\<forall>x\<in>set (str ''Unknown opcode used.''). x < 128"
  "length (str ''Unknown opcode used.'') \<le> 123"
  "\<forall>x\<in>set (str ''Used frame-rsv1 without proper extension''). x < 128"
  "length (str ''Used frame-rsv1 without proper extension'') \<le> 123"
  "\<forall>x\<in>set (str ''Used frame-rsv2 without proper extension''). x < 128"
  "length (str ''Used frame-rsv2 without proper extension'') \<le> 123"
  "\<forall>x\<in>set (str ''Used frame-rsv3 without proper extension''). x < 128"
  "length (str ''Used frame-rsv3 without proper extension'') \<le> 123"
  by (simp_all add: str_def)

lemma recv_frame_rejected:
  assumes "verify rule c f = Inr (False, r)"
  shows "recv_frame rule c f = close c 1002 r"
  using assms by (simp add: recv_frame_def)

lemma from_value_unknown:
  "v \<notin> {0, 1, 2, 8, 9, 10} \<Longrightarrow> from_value v = None"
  by (simp add: from_value_def FrameOpcode_members_def)

lemma sequencing_violation_not_continuation:
  "opcode f \<noteq> Some CONTINUATION \<Longrightarrow> sequencing_violation lf f = None"
  by (simp add: sequencing_violation_def split: option.splits)

text \<open>
  For a frame that passes the sequencing rules and has a member of the enum as opcode, the
  reserved-bit rules read the claims of the first extension of the list only.
\<close>

lemma ChainMap_get_rsv_dict:
  "ChainMap_get (rsv_dict e # ms) ''R1'' = Some (RSV1 e)"
  "ChainMap_get (rsv_dict e # ms) ''R2'' = Some (RSV2 e)"
  "ChainMap_get (rsv_dict e # ms) ''R3'' = Some (RSV3 e)"
  "ChainMap_get [] k = None"
  by (simp_all add: ChainMap_get_def rsv_dict_def)

lemma verify_reserved_bits_first_extension:
  assumes "sequencing_violation (last_frame (constructor c)) f = None" "opcode f = Some oc"
  shows "verify rule c f = Inr (True, None) \<longleftrightarrow>
           (case extensions c of
              [] \<Rightarrow> rsvs f = (False, False, False)
            | e # es \<Rightarrow> (fst (rsvs f) \<longrightarrow> RSV1 e) \<and> (fst (snd (rsvs f)) \<longrightarrow> RSV2 e)
                         \<and> (snd (snd (rsvs f)) \<longrightarrow> RSV3 e))"
proof -
  obtain a b d where r: "rsvs f = (a, b, d)" by (cases "rsvs f") auto
  show ?thesis
  proof (cases "extensions c")
    case Nil
    then show ?thesis using assms r
      by (simp add: verify_def enum_contains_def ChainMap_get_rsv_dict falsy_def)
  next
    case (Cons e es)
    then show ?thesis using assms r
      by (cases "RSV1 e"; cases "RSV2 e"; cases "RSV3 e")
         (simp_all add: verify_def enum_contains_def ChainMap_get_rsv_dict falsy_def Let_def)
  qed
qed

section \<open>C1: round trip of the codec\<close>

text \<open>
  C1. Claim: for every valid frame, decoding the bytes produced by encoding it reproduces
  the final bit, the reserved bits, the opcode and the unmasked payload, in particular for
  payload lengths 0, 1, 125, 126, 65535 and 65536. The code does not do this at length
  126: \<^verbatim>\<open>build\<close> writes length class 126 followed by a two-byte length (\<^verbatim>\<open>!H\<close>),
  while \<^verbatim>\<open>load\<close> reads the extended length with \<^verbatim>\<open>!B\<close>, one byte. For an unmasked
  final Text frame of 126 payload bytes the decoder takes the high byte of the length, 0,
  for the payload length and returns a frame with an empty payload. The same happens for
  every length from 126 to 65535; frames of at most 125 and of at least 65536 payload
  bytes are decoded to themselves, as the lemmas above show.
\<close>

theorem C1_roundtrip_fails_at_126:
  "decode_encoded \<lparr>final = True, rsvs = (False, False, False), opcode = Some TEXT,
                    payload = replicate 126 1, mask_key = None\<rparr>
   = Inr \<lparr>final = True, rsvs = (False, False, False), opcode = Some TEXT,
          payload = [], mask_key = None\<rparr>"
  using load_126_unmasked
          [of "\<lparr>final = True, rsvs = (False, False, False), opcode = Some TEXT,
                payload = replicate 126 1, mask_key = None\<rparr>" TEXT]
  by simp

section \<open>C2: reassembly of a fragmented message\<close>

lemma recv_data_final:
  assumes "verify rule c f = Inr (True, None)"
    and "opcode f = Some TEXT \<or> opcode f = Some BINARY"
    and "final f"
    and "Message_init (frame_setup (constructor c) @ [f]) = Inr msg"
  shows "recv_frame rule c f
         = (None, set_last_frame (log (trigger (append_frame c f) (On_message msg))
                                      (ClientCall (On_message msg))) f)"
  using assms by (auto simp: recv_frame_def dispatch_def append_frame_def Let_def)

lemma recv_data_not_final:
  assumes "verify rule c f = Inr (True, None)"
    and "opcode f = Some TEXT \<or> opcode f = Some BINARY"
    and "\<not> final f"
  shows "recv_frame rule c f = (None, set_last_frame (append_frame c f) f)"
  using assms by (auto simp: recv_frame_def dispatch_def Let_def)

text \<open>
  An accepted Continuation frame (here with a payload too short to hold a status code) is
  handled by the last branch of \<^verbatim>\<open>recv_frame\<close>, the one for Close frames: it is not
  appended to the pending frames, it is delivered to \<^verbatim>\<open>on_close\<close>, and the connection
  answers with a Close frame of code 1000.
\<close>

lemma recv_continuation:
  assumes v: "verify rule c f = Inr (True, None)"
    and o: "opcode f = Some CONTINUATION"
    and l: "length (payload f) < 2"
  shows "\<exists>c' bs. recv_frame rule c f = (None, c')
           \<and> frame_setup (constructor c') = frame_setup (constructor c)
           \<and> last_frame (constructor c') = Some f
           \<and> extensions c' = extensions c
           \<and> status c' = CLOSING
           \<and> close_reason c'
               = Some \<lparr>type_opcode = Some CONTINUATION, raw_data = payload f,
                       code = None, reason = None\<rparr>
           \<and> trace c'
               = trace (trigger (log (trigger c (On_close
                          \<lparr>type_opcode = Some CONTINUATION, raw_data = payload f,
                           code = None, reason = None\<rparr>))
                        (ClientCall (On_close
                          \<lparr>type_opcode = Some CONTINUATION, raw_data = payload f,
                           code = None, reason = None\<rparr>)))
                      (Before_control_frame Close_cls))
                 @ [SocketSend bs]"
proof -
  define cl where "cl = \<lparr>type_opcode = Some CONTINUATION, raw_data = payload f,
                          code = None, reason = None\<rparr>"
  define c1 where "c1 = (log (trigger c (On_close cl)) (ClientCall (On_close cl)))
                          \<lparr>close_reason := Some cl, status := CLOSING\<rparr>"
  have ci: "Close_init f = Inr cl"
    using o l by (simp add: Close_init_def Close_load_def cl_def)
  obtain c2 bs where c2: "close c1 1000 None = (None, c2)" "status c2 = CLOSING"
      "constructor c2 = constructor c1" "close_reason c2 = close_reason c1"
      "extensions c2 = extensions c1"
      "trace c2 = trace (trigger c1 (Before_control_frame Close_cls)) @ [SocketSend bs]"
    using close_sends [of 1000 None c1] by auto
  have d: "dispatch c f = (None, c2)"
    using o ci c2(1) by (simp add: dispatch_def on_close_def c1_def)
  have r: "recv_frame rule c f = (None, set_last_frame c2 f)"
    using v d by (simp add: recv_frame_def)
  show ?thesis
    unfolding r using c2
    by (simp add: set_last_frame_def c1_def cl_def trigger_def log_def)
qed

text \<open>
  C2. Claim: a Text frame marked non-final, a non-final Continuation frame and a final
  Continuation frame are all appended to the pending buffer, a Text message with the
  concatenated payload is dispatched, and the buffer is then cleared. In the code the two
  Continuation frames are treated as Close frames: after the three frames ``a'', ``b'',
  ``c'' the pending buffer holds the first frame only, no message has been delivered, two
  Close events have been delivered, and the connection is closing. Nor is the buffer
  cleared after a message: after a single final Text frame it still holds that frame.
\<close>

theorem C2_continuation_handled_as_close:
  "fst (recv_frames rule example_client
          [data_frame False TEXT [97], data_frame False CONTINUATION [98],
           data_frame True CONTINUATION [99]]) = None
   \<and> frame_setup (constructor (snd (recv_frames rule example_client
          [data_frame False TEXT [97], data_frame False CONTINUATION [98],
           data_frame True CONTINUATION [99]]))) = [data_frame False TEXT [97]]
   \<and> filter is_message_event (trace (snd (recv_frames rule example_client
          [data_frame False TEXT [97], data_frame False CONTINUATION [98],
           data_frame True CONTINUATION [99]]))) = []
   \<and> filter is_close_event (trace (snd (recv_frames rule example_client
          [data_frame False TEXT [97], data_frame False CONTINUATION [98],
           data_frame True CONTINUATION [99]])))
       = [ClientCall (On_close \<lparr>type_opcode = Some CONTINUATION, raw_data = [98],
                                code = None, reason = None\<rparr>),
          ClientCall (On_close \<lparr>type_opcode = Some CONTINUATION, raw_data = [99],
                                code = None, reason = None\<rparr>)]
   \<and> status (snd (recv_frames rule example_client
          [data_frame False TEXT [97], data_frame False CONTINUATION [98],
           data_frame True CONTINUATION [99]])) = CLOSING
   \<and> frame_setup (constructor (snd (recv_frame rule example_client (data_frame True TEXT [97]))))
       = [data_frame True TEXT [97]]"
proof -
  let ?t1 = "data_frame False TEXT [97]"
  let ?t2 = "data_frame False CONTINUATION [98]"
  let ?t3 = "data_frame True CONTINUATION [99]"
  define c1 where "c1 = set_last_frame (append_frame example_client ?t1) ?t1"
  have v1: "verify rule example_client ?t1 = Inr (True, None)"
    by (simp add: verify_def sequencing_violation_def enum_contains_def example_client_def
                  data_frame_def ChainMap_get_rsv_dict falsy_def)
  have r1: "recv_frame rule example_client ?t1 = (None, c1)"
    using recv_data_not_final [OF v1] by (simp add: c1_def data_frame_def)
  have c1: "frame_setup (constructor c1) = [?t1]" "last_frame (constructor c1) = Some ?t1"
      "extensions c1 = []" "trace c1 = []"
    by (simp_all add: c1_def set_last_frame_def append_frame_def example_client_def)
  have v2: "verify rule c1 ?t2 = Inr (True, None)"
    using c1 by (simp add: verify_def sequencing_violation_def enum_contains_def
                           data_frame_def ChainMap_get_rsv_dict falsy_def)
  obtain c2 bs2 where c2: "recv_frame rule c1 ?t2 = (None, c2)"
      "frame_setup (constructor c2) = [?t1]" "last_frame (constructor c2) = Some ?t2"
      "extensions c2 = []"
      "trace c2 = [ClientCall (On_close \<lparr>type_opcode = Some CONTINUATION, raw_data = [98],
                                          code = None, reason = None\<rparr>), SocketSend bs2]"
    using recv_continuation [OF v2] c1 by (auto simp: data_frame_def trigger_def log_def)
  have v3: "verify rule c2 ?t3 = Inr (True, None)"
    using c2 by (simp add: verify_def sequencing_violation_def enum_contains_def
                           data_frame_def ChainMap_get_rsv_dict falsy_def)
  obtain c3 bs3 where c3: "recv_frame rule c2 ?t3 = (None, c3)"
      "frame_setup (constructor c3) = [?t1]" "status c3 = CLOSING"
      "trace c3 = [ClientCall (On_close \<lparr>type_opcode = Some CONTINUATION, raw_data = [98],
                                          code = None, reason = None\<rparr>), SocketSend bs2,
                   ClientCall (On_close \<lparr>type_opcode = Some CONTINUATION, raw_data = [99],
                                          code = None, reason = None\<rparr>), SocketSend bs3]"
    using recv_continuation [OF v3] c2 by (auto simp: data_frame_def trigger_def log_def)
  have all: "recv_frames rule example_client [?t1, ?t2, ?t3] = (None, c3)"
    using r1 c2(1) c3(1) by simp
  have v4: "verify rule example_client (data_frame True TEXT [97]) = Inr (True, None)"
    by (simp add: verify_def sequencing_violation_def enum_contains_def example_client_def
                  data_frame_def ChainMap_get_rsv_dict falsy_def)
  have m4: "Message_init (frame_setup (constructor example_client) @ [data_frame True TEXT [97]])
            = Inr \<lparr>data_type = PyStr, data = Str [97]\<rparr>"
    by (simp add: Message_init_def example_client_def data_frame_def cons_e_def)
  have r4: "frame_setup (constructor (snd (recv_frame rule example_client (data_frame True TEXT [97]))))
            = [data_frame True TEXT [97]]"
    unfolding recv_data_final [OF v4 _ _ m4, simplified data_frame_def, simplified, folded data_frame_def]
    by (simp add: set_last_frame_def append_frame_def trigger_def log_def example_client_def)
  show ?thesis
    unfolding all using c3 r4 by simp
qed

section \<open>C3: close() and the connection status\<close>

text \<open>
  C3. Claim: \<^verbatim>\<open>close()\<close> sends a Close frame and moves to Closing when the status is
  Connected, closes the transport when the status is Connecting or Closing, and fails
  with \<^verbatim>\<open>AlreadyClosed\<close> when the status is Closed. The code tests the enum members
  themselves (\<^verbatim>\<open>if ConnectionStatus.CONNECTED:\<close>), which are always true, so the first
  branch is taken whatever the status is: for every connection \<^verbatim>\<open>close()\<close> returns
  normally, leaves the status at Closing and does not close the socket.
\<close>

theorem C3_close_ignores_status:
  "fst (close c 1000 None) = None
   \<and> status (snd (close c 1000 None)) = CLOSING
   \<and> socket_closed (snd (close c 1000 None)) = socket_closed c
   \<and> closed_with (close c 1000 None) 1000 []"
proof -
  obtain c' bs where c': "close c 1000 None = (None, c')" "status c' = CLOSING"
      "trace c' = trace (trigger c (Before_control_frame Close_cls)) @ [SocketSend bs]"
      "is_close_frame bs 1000 []"
    using close_sends [of 1000 None c] by auto
  have "last_sent c' = Some bs" using c'(3) by (simp add: last_sent_def)
  moreover have "socket_closed c' = socket_closed c"
    using c'(3) by (auto simp: socket_closed_def trigger_def)
  ultimately show ?thesis using c' by (simp add: closed_with_def)
qed

section \<open>C4: the payload of a Close frame\<close>

text \<open>
  C4. Claim: a Close payload of exactly two bytes yields the status code and no reason, a
  longer payload yields the code and the reason decoded from the bytes after the code, and
  an empty payload yields neither. For a payload longer than two bytes \<^verbatim>\<open>Close.load\<close>
  decodes \<^verbatim>\<open>raw_data[:2]\<close>, the two bytes of the code, instead of the bytes after
  them. For code 1000 and reason ``bye'' the two code bytes are not UTF-8 and the
  constructor raises \<^verbatim>\<open>UnicodeDecodeError\<close>; for code 4161 and reason ``bye'' the
  reason comes out as the characters U+0010 and ``A''. (The code field holds the
  one-element tuple that \<^verbatim>\<open>unpack\<close> returns.)
\<close>

theorem C4_reason_decoded_from_code_bytes:
  "Close_init (data_frame True CLOSE [3, 232, 98, 121, 101]) = Inl UnicodeDecodeError
   \<and> Close_init (data_frame True CLOSE [16, 65, 98, 121, 101])
       = Inr \<lparr>type_opcode = Some CLOSE, raw_data = [16, 65, 98, 121, 101],
              code = Some [4161], reason = Some [16, 65]\<rparr>
   \<and> utf8_decode [98, 121, 101] = Inr (str ''bye'')"
  by (simp add: Close_init_def Close_load_def data_frame_def unpack_def be_int_def
                in_range_def cons_e_def str_def)

text \<open>The other two cases of the claim hold, up to the tuple around the code.\<close>

lemma Close_load_two_bytes:
  "Close_load [a, b] = Inr (Some [uint a * 256 + uint b], None)"
  by (simp add: Close_load_def unpack_def be_int_def)

lemma Close_load_short:
  "length raw < 2 \<Longrightarrow> Close_load raw = Inr (None, None)"
  by (simp add: Close_load_def)

lemma Close_load_long:
  "length raw > 2 \<Longrightarrow>
   Close_load raw
     = bind_e (utf8_decode (take 2 raw)) (\<lambda>r. Inr (Some [be_int (take 2 raw)], Some r))"
  by (simp add: Close_load_def unpack_def)

section \<open>C5: reserved bits and the registered extensions\<close>

text \<open>
  C5. Claim: a reserved bit set on an incoming frame passes verification if and only if at
  least one registered extension claims that bit. The code looks the bits up in a
  \<^verbatim>\<open>ChainMap\<close> of one dictionary per extension; every dictionary has all three keys, so
  the lookup always answers from the first extension. With two extensions of which only
  the second claims bit 1, a final Text frame with bit 1 set is rejected and the connection
  is closed with code 1002, although a registered extension claims the bit.
\<close>

theorem C5_only_first_extension_counts:
  "list_ex RSV1 (extensions two_extension_client)
   \<and> verify rule two_extension_client ((data_frame True TEXT [1])\<lparr>rsvs := (True, False, False)\<rparr>)
       = Inr (False, Some (str ''Used frame-rsv1 without proper extension''))
   \<and> closed_with
         (recv_frame rule two_extension_client
            ((data_frame True TEXT [1])\<lparr>rsvs := (True, False, False)\<rparr>))
         1002 (str ''Used frame-rsv1 without proper extension'')"
proof -
  have v: "verify rule two_extension_client
             ((data_frame True TEXT [1])\<lparr>rsvs := (True, False, False)\<rparr>)
           = Inr (False, Some (str ''Used frame-rsv1 without proper extension''))"
    by (simp add: verify_def sequencing_violation_def enum_contains_def two_extension_client_def
                  example_client_def data_frame_def ChainMap_get_rsv_dict falsy_def
                  plain_extension_def)
  have "closed_with
          (recv_frame rule two_extension_client
             ((data_frame True TEXT [1])\<lparr>rsvs := (True, False, False)\<rparr>))
          1002 (str ''Used frame-rsv1 without proper extension'')"
    unfolding recv_frame_rejected [OF v] by (rule closed_with_close) (rule reason_ok)+
  moreover have "list_ex RSV1 (extensions two_extension_client)"
    by (simp add: two_extension_client_def rsv1_extension_def)
  ultimately show ?thesis using v by simp
qed

section \<open>C6: unknown opcodes\<close>

lemma from_value_3: "from_value 3 = None"
  by (simp add: from_value_unknown)

text \<open>
  Under the containment rule of Python up to 3.7, where a non-member is not contained in
  the enum, a frame with an unknown opcode is rejected with the reason
  ``Unknown opcode used.'', and \<^verbatim>\<open>recv_frame\<close> does nothing but close the connection
  with code 1002 and that reason.
\<close>

lemma unknown_opcode_rejected_non_member_false:
  assumes "v \<notin> {0, 1, 2, 8, 9, 10}" and "opcode f = from_value v"
  shows "verify NonMemberFalse c f = Inr (False, Some (str ''Unknown opcode used.''))
         \<and> closed_with (recv_frame NonMemberFalse c f) 1002 (str ''Unknown opcode used.'')
         \<and> constructor (snd (recv_frame NonMemberFalse c f)) = constructor c
         \<and> close_reason (snd (recv_frame NonMemberFalse c f)) = close_reason c
         \<and> trace (snd (recv_frame NonMemberFalse c f))
             = trace (trigger c (Before_control_frame Close_cls))
               @ [SocketSend (the (last_sent (snd (recv_frame NonMemberFalse c f))))]"
proof -
  have o: "opcode f = None"
    using assms from_value_unknown by simp
  have v: "verify NonMemberFalse c f = Inr (False, Some (str ''Unknown opcode used.''))"
    using o by (simp add: verify_def sequencing_violation_not_continuation enum_contains_def)
  have r: "recv_frame NonMemberFalse c f = close c 1002 (Some (str ''Unknown opcode used.''))"
    using v by (rule recv_frame_rejected)
  have cr: "close_reason (snd (close c 1002 (Some (str ''Unknown opcode used.'')))) = close_reason c"
    using close_sends [of 1002 "Some (str ''Unknown opcode used.'')" c] reason_ok by auto
  show ?thesis
    unfolding r
    using v cr closed_with_close [of "str ''Unknown opcode used.''" c] reason_ok
    by (simp add: close_preserves)
qed

text \<open>
  Under the other two containment rules the frame is not rejected by \<^verbatim>\<open>verify\<close>: with
  the rule of Python 3.8 to 3.11 the test raises \<^verbatim>\<open>TypeError\<close>, and with the rule of
  Python 3.12, where \<^verbatim>\<open>None\<close> is found as the value of \<^verbatim>\<open>RESERVED\<close>, a frame with no
  reserved bit set passes verification.
\<close>

lemma unknown_opcode_other_rules:
  assumes "opcode f = None"
  shows "verify NonMemberTypeError c f = Inl TypeError"
    and "recv_frame NonMemberTypeError c f = (Some TypeError, c)"
    and "rsvs f = (False, False, False) \<Longrightarrow> verify ByValue c f = Inr (True, None)"
  using assms
  by (simp_all add: verify_def recv_frame_def sequencing_violation_not_continuation
                    enum_contains_def FrameOpcode_members_def falsy_def)

text \<open>
  An accepted frame without an opcode (and with a payload too short to hold a status
  code) is handled by the last branch of \<^verbatim>\<open>recv_frame\<close>, the one for Close frames.
\<close>

lemma recv_no_opcode:
  assumes v: "verify rule c f = Inr (True, None)"
    and o: "opcode f = None"
    and l: "length (payload f) < 2"
  shows "\<exists>c' bs. recv_frame rule c f = (None, c')
           \<and> last_frame (constructor c') = Some f
           \<and> status c' = CLOSING
           \<and> trace c'
               = trace (trigger (log (trigger c (On_close
                          \<lparr>type_opcode = None, raw_data = payload f,
                           code = None, reason = None\<rparr>))
                        (ClientCall (On_close
                          \<lparr>type_opcode = None, raw_data = payload f,
                           code = None, reason = None\<rparr>)))
                      (Before_control_frame Close_cls))
                 @ [SocketSend bs]"
proof -
  define cl where "cl = \<lparr>type_opcode = None, raw_data = payload f, code = None, reason = None\<rparr>"
  define c1 where "c1 = (log (trigger c (On_close cl)) (ClientCall (On_close cl)))
                          \<lparr>close_reason := Some cl, status := CLOSING\<rparr>"
  have ci: "Close_init f = Inr cl"
    using o l by (simp add: Close_init_def Close_load_def cl_def)
  obtain c2 bs where c2: "close c1 1000 None = (None, c2)" "status c2 = CLOSING"
      "constructor c2 = constructor c1"
      "trace c2 = trace (trigger c1 (Before_control_frame Close_cls)) @ [SocketSend bs]"
    using close_sends [of 1000 None c1] by auto
  have d: "dispatch c f = (None, c2)"
    using o ci c2(1) by (simp add: dispatch_def on_close_def c1_def)
  have r: "recv_frame rule c f = (None, set_last_frame c2 f)"
    using v d by (simp add: recv_frame_def)
  show ?thesis
    unfolding r using c2
    by (simp add: set_last_frame_def c1_def cl_def trigger_def log_def)
qed

text \<open>
  C6. Claim: a frame whose four-bit opcode is none of the six known values is rejected by
  verification and the connection is closed with code 1002, as a controlled shutdown and
  not a crash or a misclassified dispatch. \<^verbatim>\<open>verify\<close> tests
  \<^verbatim>\<open>frame.opcode not in FrameOpcode\<close> on the \<^verbatim>\<open>None\<close> that \<^verbatim>\<open>from_value\<close> returns
  for such an opcode. For the frame with opcode field 3, under the containment rule of
  Python 3.8 to 3.11 that test raises \<^verbatim>\<open>TypeError\<close>, which leaves \<^verbatim>\<open>recv_frame\<close> with
  nothing sent; under the rule of Python 3.12 and later the frame passes verification, is
  delivered to \<^verbatim>\<open>on_close\<close> as if it were a Close frame, and becomes the last accepted
  frame.
\<close>

theorem C6_unknown_opcode_crash_or_close_dispatch:
  "opcode unknown_opcode_frame = None
   \<and> fst (recv_frame NonMemberTypeError example_client unknown_opcode_frame) = Some TypeError
   \<and> trace (snd (recv_frame NonMemberTypeError example_client unknown_opcode_frame)) = []
   \<and> verify ByValue example_client unknown_opcode_frame = Inr (True, None)
   \<and> fst (recv_frame ByValue example_client unknown_opcode_frame) = None
   \<and> filter is_close_event (trace (snd (recv_frame ByValue example_client unknown_opcode_frame)))
       = [ClientCall (On_close \<lparr>type_opcode = None, raw_data = [], code = None, reason = None\<rparr>)]
   \<and> last_frame (constructor (snd (recv_frame ByValue example_client unknown_opcode_frame)))
       = Some unknown_opcode_frame"
proof -
  have o: "opcode unknown_opcode_frame = None"
    by (simp add: unknown_opcode_frame_def from_value_3)
  have r: "rsvs unknown_opcode_frame = (False, False, False)"
      "payload unknown_opcode_frame = []"
    by (simp_all add: unknown_opcode_frame_def)
  have t: "recv_frame NonMemberTypeError example_client unknown_opcode_frame
           = (Some TypeError, example_client)"
    using o by (rule unknown_opcode_other_rules(2))
  have v: "verify ByValue example_client unknown_opcode_frame = Inr (True, None)"
    using o r(1) by (rule unknown_opcode_other_rules(3))
  obtain c' bs where c': "recv_frame ByValue example_client unknown_opcode_frame = (None, c')"
      "last_frame (constructor c') = Some unknown_opcode_frame"
      "trace c' = [ClientCall (On_close \<lparr>type_opcode = None, raw_data = [],
                                          code = None, reason = None\<rparr>), SocketSend bs]"
    using recv_no_opcode [OF v o] r(2)
    by (auto simp: trigger_def log_def example_client_def)
  show ?thesis
    unfolding t c'(1) using o v c' by (simp add: example_client_def)
qed

section \<open>C7: a Continuation frame out of sequence\<close>

text \<open>
  C7. A Continuation frame that arrives as the very first frame, or immediately after a
  Ping frame, is rejected by \<^verbatim>\<open>verify\<close>, and \<^verbatim>\<open>recv_frame\<close> closes the connection
  with code 1002 and the reason of the violation.
\<close>

theorem C7_continuation_out_of_sequence:
  assumes "opcode f = Some CONTINUATION"
  shows "(last_frame (constructor c) = None \<longrightarrow>
            verify rule c f = Inr (False, Some (str ''Sent continuation without initial frame.''))
            \<and> closed_with (recv_frame rule c f) 1002
                 (str ''Sent continuation without initial frame.''))
         \<and> (verify rule c p = Inr (True, None) \<and> opcode p = Some PING \<longrightarrow>
            verify rule (snd (recv_frame rule c p)) f
              = Inr (False, Some (str ''Ping, Pong, or Close frames cannot be fragmented.''))
            \<and> closed_with (recv_frames rule c [p, f]) 1002
                 (str ''Ping, Pong, or Close frames cannot be fragmented.''))"
proof (intro conjI impI)
  assume n: "last_frame (constructor c) = None"
  show v: "verify rule c f = Inr (False, Some (str ''Sent continuation without initial frame.''))"
    using assms n by (simp add: verify_def sequencing_violation_def)
  show "closed_with (recv_frame rule c f) 1002 (str ''Sent continuation without initial frame.'')"
    unfolding recv_frame_rejected [OF v] by (rule closed_with_close) (rule reason_ok)+
next
  assume a: "verify rule c p = Inr (True, None) \<and> opcode p = Some PING"
  define c1 where "c1 = set_last_frame (log (trigger c (On_ping (ControlFrame_init p)))
                                           (ClientCall (On_ping (ControlFrame_init p)))) p"
  have r1: "recv_frame rule c p = (None, c1)"
    using a by (simp add: recv_frame_def dispatch_def c1_def Let_def)
  have lf: "last_frame (constructor c1) = Some p"
    by (simp add: c1_def set_last_frame_def)
  have v: "verify rule c1 f = Inr (False, Some (str ''Ping, Pong, or Close frames cannot be fragmented.''))"
    using assms a lf by (simp add: verify_def sequencing_violation_def)
  show "verify rule (snd (recv_frame rule c p)) f
          = Inr (False, Some (str ''Ping, Pong, or Close frames cannot be fragmented.''))"
    using v r1 by simp
  have "recv_frames rule c [p, f] = recv_frame rule c1 f"
    using r1 by (simp add: then_do_def split: prod.splits option.splits)
  then show "closed_with (recv_frames rule c [p, f]) 1002
               (str ''Ping, Pong, or Close frames cannot be fragmented.'')"
    unfolding recv_frame_rejected [OF v]
    by (simp only: closed_with_close(1) [OF reason_ok(1) reason_ok(2)])
qed

theorem C7_continuation_out_of_sequence_witness:
  "opcode (data_frame True CONTINUATION [1]) = Some CONTINUATION
   \<and> last_frame (constructor example_client) = None
   \<and> closed_with (recv_frame NonMemberFalse example_client (data_frame True CONTINUATION [1]))
        1002 (str ''Sent continuation without initial frame.'')
   \<and> verify NonMemberFalse example_client (data_frame True PING []) = Inr (True, None)
   \<and> opcode (data_frame True PING []) = Some PING
   \<and> closed_with (recv_frames NonMemberFalse example_client
                     [data_frame True PING [], data_frame True CONTINUATION [1]])
        1002 (str ''Ping, Pong, or Close frames cannot be fragmented.'')"
proof -
  have o: "opcode (data_frame True CONTINUATION [1]) = Some CONTINUATION"
    by (simp add: data_frame_def)
  have n: "last_frame (constructor example_client) = None"
    by (simp add: example_client_def)
  have v: "verify NonMemberFalse example_client (data_frame True PING []) = Inr (True, None)"
    by (simp add: verify_def sequencing_violation_def example_client_def data_frame_def
                  enum_contains_def ChainMap_get_def falsy_def)
  have p: "opcode (data_frame True PING []) = Some PING"
    by (simp add: data_frame_def)
  show ?thesis
    using C7_continuation_out_of_sequence
            [OF o, of example_client NonMemberFalse "data_frame True PING []"] o n v p
    by simp
qed

section \<open>C8: the accept key and confirm\<close>

lemma sample_key_bytes:
  "utf8_encode (str ''dGhlIHNhbXBsZSBub25jZQ=='')
   = Inr [100, 71, 104, 108, 73, 72, 78, 104, 98, 88, 66, 115, 90, 83, 66, 117, 98, 50, 53, 106, 90, 81, 61, 61]"
  by (simp add: str_def utf8_encode_char_def)

lemma sample_accept_bytes:
  "b64encode (sha1 ([100, 71, 104, 108, 73, 72, 78, 104, 98, 88, 66, 115, 90, 83, 66, 117, 98, 50, 53, 106, 90, 81, 61, 61] @ WS_GUID))
   = [115, 51, 112, 80, 76, 77, 66, 105, 84, 120, 97, 81, 57, 107, 89, 71, 122, 122, 104, 90, 82, 98, 75, 43, 120, 79, 111, 61]"
  by code_simp

lemma sample_accept_str:
  "utf8_decode [115, 51, 112, 80, 76, 77, 66, 105, 84, 120, 97, 81, 57, 107, 89, 71, 122, 122, 104, 90, 82, 98, 75, 43, 120, 79, 111, 61]
   = Inr (str ''s3pPLMBiTxaQ9kYGzzhZRbK+xOo='')"
  by (simp add: str_def cons_e_def)

lemma expecting_key_sample:
  assumes "key u = str ''dGhlIHNhbXBsZSBub25jZQ==''"
  shows "expecting_key u = Inr (str ''s3pPLMBiTxaQ9kYGzzhZRbK+xOo='')"
  unfolding expecting_key_def assms sample_key_bytes bind_e_simps sample_accept_bytes
  by (rule sample_accept_str)

text \<open>
  With the expected key known, \<^verbatim>\<open>confirm\<close> never raises: each missing header and each
  failed assertion is caught and turned into \<^verbatim>\<open>False\<close>.
\<close>

lemma confirm_iff:
  assumes "expecting_key u = Inr k"
  shows "confirm u response =
         Inr ((\<exists>a. resp_headers response (str ''Upgrade'') = Some a \<and> lower a = str ''websocket'')
            \<and> (\<exists>b. resp_headers response (str ''Connection'') = Some b \<and> title b = str ''Upgrade'')
            \<and> resp_headers response (str ''Sec-Websocket-Accept'') = Some k)"
proof (cases "resp_headers response (str ''Upgrade'')")
  case None
  then show ?thesis by (simp add: confirm_def confirm_try_def getitem_def)
next
  case a: (Some a)
  show ?thesis
  proof (cases "resp_headers response (str ''Connection'')")
    case None
    then show ?thesis using a
      by (simp add: confirm_def confirm_try_def getitem_def assert_e_def)
  next
    case b: (Some b)
    show ?thesis
    proof (cases "resp_headers response (str ''Sec-Websocket-Accept'')")
      case None
      then show ?thesis using a b
        by (simp add: confirm_def confirm_try_def getitem_def assert_e_def)
    next
      case (Some c)
      then show ?thesis using a b assms
        by (simp add: confirm_def confirm_try_def getitem_def assert_e_def)
    qed
  qed
qed

text \<open>
  The two normalised comparisons accept exactly the spellings of the word that differ in
  letter case (for \<^verbatim>\<open>lower\<close>, up to KELVIN SIGN for the letter k).
\<close>

lemma lower_char_letter:
  assumes "lower_char c = x" "97 \<le> x" "x \<le> 122" "x \<noteq> 107"
  shows "cased c" and "c = x \<or> c + 32 = x"
  using assms by (auto simp: lower_char_def cased_def split: if_splits)

lemma letter_lower_char:
  assumes "c = x \<or> c + 32 = x" "97 \<le> x" "x \<le> 122"
  shows "lower_char c = x" and "upper_char c + 32 = x"
  using assms by (auto simp: lower_char_def upper_char_def)

lemma title_from_True_iff:
  assumes "\<forall>x\<in>set t. 97 \<le> x \<and> x \<le> 122 \<and> x \<noteq> 107"
  shows "title_from True s = t \<longleftrightarrow> map lower_char s = t"
  using assms
proof (induction s arbitrary: t)
  case Nil
  then show ?case by auto
next
  case (Cons c cs)
  show ?case
  proof (cases t)
    case Nil
    then show ?thesis by simp
  next
    case (Cons x xs)
    have x: "97 \<le> x" "x \<le> 122" "x \<noteq> 107" and xs: "\<forall>y\<in>set xs. 97 \<le> y \<and> y \<le> 122 \<and> y \<noteq> 107"
      using Cons.prems Cons by auto
    show ?thesis
    proof (cases "lower_char c = x")
      case True
      then have "cased c" using lower_char_letter(1) x by blast
      then show ?thesis using True Cons Cons.IH [OF xs] by simp
    next
      case False
      then show ?thesis using Cons by simp
    qed
  qed
qed

lemma title_Upgrade_iff:
  "title b = str ''Upgrade'' \<longleftrightarrow> lower b = str ''upgrade''"
proof (cases b)
  case Nil
  then show ?thesis by (simp add: title_def lower_def str_def)
next
  case (Cons c cs)
  have r: "\<forall>x\<in>set (str ''pgrade''). 97 \<le> x \<and> x \<le> 122 \<and> x \<noteq> 107"
    by (simp add: str_def)
  have s: "str ''Upgrade'' = 85 # str ''pgrade''" "str ''upgrade'' = 117 # str ''pgrade''"
    by (simp_all add: str_def)
  show ?thesis
  proof (cases "c = 85 \<or> c = 117")
    case True
    then have "cased c" "upper_char c = 85" "lower_char c = 117"
      by (auto simp: cased_def upper_char_def lower_char_def)
    then show ?thesis
      unfolding Cons s using title_from_True_iff [OF r, of cs]
      by (simp add: title_def lower_def)
  next
    case False
    then have "upper_char c \<noteq> 85" "lower_char c \<noteq> 117"
      by (auto simp: upper_char_def lower_char_def split: if_splits)
    then show ?thesis
      unfolding Cons s by (simp add: title_def lower_def)
  qed
qed

text \<open>
  C8. With the handshake key fixed to \<^verbatim>\<open>dGhlIHNhbXBsZSBub25jZQ==\<close>, the expected accept
  value is \<^verbatim>\<open>s3pPLMBiTxaQ9kYGzzhZRbK+xOo=\<close>, and \<^verbatim>\<open>confirm\<close> returns, without raising,
  true exactly when the response has an Upgrade header that is ``websocket'' after
  lower-casing, a Connection header that is ``Upgrade'' after title-casing (that is, a
  spelling of ``upgrade'' in any letter case), and a Sec-WebSocket-Accept header equal to
  the expected value; it returns false when a header is absent or differs.
\<close>

theorem C8_handshake_acceptance:
  "expecting_key (u\<lparr>key := str ''dGhlIHNhbXBsZSBub25jZQ==''\<rparr>)
     = Inr (str ''s3pPLMBiTxaQ9kYGzzhZRbK+xOo='')
   \<and> confirm (u\<lparr>key := str ''dGhlIHNhbXBsZSBub25jZQ==''\<rparr>) response
     = Inr ((\<exists>a. resp_headers response (str ''Upgrade'') = Some a \<and> lower a = str ''websocket'')
          \<and> (\<exists>b. resp_headers response (str ''Connection'') = Some b \<and> lower b = str ''upgrade'')
          \<and> resp_headers response (str ''Sec-Websocket-Accept'')
              = Some (str ''s3pPLMBiTxaQ9kYGzzhZRbK+xOo=''))"
proof -
  have e: "expecting_key (u\<lparr>key := str ''dGhlIHNhbXBsZSBub25jZQ==''\<rparr>)
           = Inr (str ''s3pPLMBiTxaQ9kYGzzhZRbK+xOo='')"
    by (rule expecting_key_sample) simp
  show ?thesis
    using confirm_iff [OF e, of response] e by (simp add: title_Upgrade_iff)
qed

text \<open>An accepting response and a response without headers, for the sample key.\<close>

lemma confirm_examples:
  "confirm (u\<lparr>key := str ''dGhlIHNhbXBsZSBub25jZQ==''\<rparr>) accepting_response = Inr True"
  "confirm (u\<lparr>key := str ''dGhlIHNhbXBsZSBub25jZQ==''\<rparr>) not_found_response = Inr False"
proof -
  have e: "expecting_key (u\<lparr>key := str ''dGhlIHNhbXBsZSBub25jZQ==''\<rparr>)
           = Inr (str ''s3pPLMBiTxaQ9kYGzzhZRbK+xOo='')"
    by (rule expecting_key_sample) simp
  show "confirm (u\<lparr>key := str ''dGhlIHNhbXBsZSBub25jZQ==''\<rparr>) accepting_response = Inr True"
    unfolding confirm_iff [OF e]
    by (simp add: accepting_response_def str_def lower_def lower_char_def title_def
                  upper_char_def cased_def)
  show "confirm (u\<lparr>key := str ''dGhlIHNhbXBsZSBub25jZQ==''\<rparr>) not_found_response = Inr False"
    unfolding confirm_iff [OF e] by (simp add: not_found_response_def)
qed

section \<open>C9: a failed handshake\<close>

lemma Client_init_example:
  "Client_init example_uri [] None None example_entropy = Inr example_client"
  by (simp add: Client_init_def example_client_def example_uri_def str_def)

lemma example_key_bytes:
  "b64encode (fst (urandom 16 example_entropy))
   = [65, 65, 69, 67, 65, 119, 81, 70, 66, 103, 99, 73, 67, 81, 111, 76, 68, 65, 48, 79, 68,
      119, 61, 61]"
  by code_simp

lemma WebsocketUpgrade_init_example:
  "WebsocketUpgrade_init (uri example_client) (extensions example_client) (host example_client)
     (origin example_client) (fst (urandom 16 (entropy_src example_client)))
   = Inr example_upgrade"
  by (simp add: WebsocketUpgrade_init_def example_client_def example_uri_def example_key_bytes
                example_upgrade_def endswith_def rstrip_def or_else_def
                WS_VERSION_def str_def cons_e_def)

lemma build_request_example:
  "build_request example_upgrade = Inr example_request"
  by (simp add: build_request_def example_upgrade_def example_request_def header_line_def
                str_def utf8_encode_char_def)

text \<open>
  When the request has been sent and the handshake fails, \<^verbatim>\<open>connect\<close> calls
  \<^verbatim>\<open>close()\<close> and raises the handshake error; \<^verbatim>\<open>close()\<close> sends a Close frame and
  sets the status to Closing.
\<close>

lemma connect_handshake_failure:
  assumes i: "WebsocketUpgrade_init (uri c) (extensions c) (host c) (origin c)
                (fst (urandom 16 (entropy_src c))) = Inr u"
    and b: "build_request u = Inr bytes"
    and f: "resp_code response \<noteq> 101 \<or> confirm u response = Inr False"
  shows "\<exists>c' bs. connect c response
                   = (Some (if resp_code response \<noteq> 101
                            then HandshakeFail_code (resp_code response)
                            else HandshakeFail_invalid), c')
           \<and> status c' = CLOSING
           \<and> trace c' = trace c @ [SocketConnect, SocketSend bytes]
                          @ map (\<lambda>i. ExtensionCall i (Before_control_frame Close_cls))
                                [0..<length (extensions c)]
                          @ [SocketSend bs]"
proof -
  define c3 where "c3 = log ((log (c\<lparr>status := CONNECTING\<rparr>) SocketConnect)
                              \<lparr>entropy_src := snd (urandom 16 (entropy_src c))\<rparr>)
                            (SocketSend bytes)"
  define e where "e = (if resp_code response \<noteq> 101 then HandshakeFail_code (resp_code response)
                       else HandshakeFail_invalid)"
  have c: "connect c response = handshake_failed c3 e"
    using i b f by (auto simp: connect_def Let_def log_def c3_def e_def)
  obtain c' bs where c': "close c3 1000 None = (None, c')" "status c' = CLOSING"
      "trace c' = trace (trigger c3 (Before_control_frame Close_cls)) @ [SocketSend bs]"
    using close_sends [of 1000 None c3] by auto
  have h: "connect c response = (Some e, c')"
    using c c' by (simp add: handshake_failed_def)
  have t: "trace c' = trace c @ [SocketConnect, SocketSend bytes]
                      @ map (\<lambda>i. ExtensionCall i (Before_control_frame Close_cls))
                            [0..<length (extensions c)]
                      @ [SocketSend bs]"
    using c'(3) by (simp add: c3_def trigger_def log_def)
  show ?thesis
    using h t c'(2) unfolding e_def by (intro exI [of _ c'] exI [of _ bs] conjI)
qed

text \<open>
  C9. Claim: when \<^verbatim>\<open>connect()\<close> fails the handshake it closes the transport and raises
  a handshake error, and the status is left unaffected by the failed attempt. On the
  example connection with a 404 response the handshake error is raised, but the status,
  Closed before the call, is Closing after it, and the socket has not been closed.
\<close>

theorem C9_status_changed_counterexample:
  "status example_client = CLOSED
   \<and> fst (connect example_client not_found_response) = Some (HandshakeFail_code 404)
   \<and> status (snd (connect example_client not_found_response)) = CLOSING
   \<and> \<not> socket_closed (snd (connect example_client not_found_response))"
proof -
  have f: "resp_code not_found_response \<noteq> 101 \<or> confirm example_upgrade not_found_response = Inr False"
    by (simp add: not_found_response_def)
  obtain c' bs where c': "connect example_client not_found_response
        = (Some (if resp_code not_found_response \<noteq> 101
                 then HandshakeFail_code (resp_code not_found_response)
                 else HandshakeFail_invalid), c')"
      "status c' = CLOSING"
      "trace c' = trace example_client @ [SocketConnect, SocketSend example_request]
                  @ map (\<lambda>i. ExtensionCall i (Before_control_frame Close_cls))
                        [0..<length (extensions example_client)]
                  @ [SocketSend bs]"
    using connect_handshake_failure [OF WebsocketUpgrade_init_example build_request_example f]
    by blast
  have "\<not> socket_closed c'"
    using c'(3) by (simp add: socket_closed_def example_client_def)
  then show ?thesis
    using c' by (simp add: not_found_response_def example_client_def)
qed

text \<open>
  C9, amended. When \<^verbatim>\<open>connect()\<close> fails the handshake (a status code other than 101,
  or a failed verification of the accept key) after the request has been sent, it raises
  the handshake error, and the status, which \<^verbatim>\<open>connect()\<close> set to Connecting when the
  attempt began, is neither Connected nor back at Closed afterwards.
\<close>

theorem C9_failed_handshake:
  assumes "WebsocketUpgrade_init (uri c) (extensions c) (host c) (origin c)
             (fst (urandom 16 (entropy_src c))) = Inr u"
    and "build_request u = Inr bytes"
    and "resp_code response \<noteq> 101 \<or> confirm u response = Inr False"
  shows "fst (connect c response)
           = Some (if resp_code response \<noteq> 101 then HandshakeFail_code (resp_code response)
                   else HandshakeFail_invalid)
         \<and> status (snd (connect c response)) \<noteq> CONNECTED
         \<and> status (snd (connect c response)) \<noteq> CLOSED"
  using connect_handshake_failure [OF assms] by auto

theorem C9_failed_handshake_witness:
  "WebsocketUpgrade_init (uri example_client) (extensions example_client) (host example_client)
     (origin example_client) (fst (urandom 16 (entropy_src example_client)))
   = Inr example_upgrade
   \<and> build_request example_upgrade = Inr example_request
   \<and> resp_code not_found_response \<noteq> 101
   \<and> fst (connect example_client not_found_response) = Some (HandshakeFail_code 404)
   \<and> status (snd (connect example_client not_found_response)) \<noteq> CONNECTED
   \<and> status (snd (connect example_client not_found_response)) \<noteq> CLOSED"
proof -
  have f: "resp_code not_found_response \<noteq> 101"
    by (simp add: not_found_response_def)
  then have f': "resp_code not_found_response \<noteq> 101
                 \<or> confirm example_upgrade not_found_response = Inr False"
    by simp
  show ?thesis
    using C9_failed_handshake [OF WebsocketUpgrade_init_example build_request_example f']
      WebsocketUpgrade_init_example build_request_example f
    by (simp add: not_found_response_def)
qed

section \<open>C10: a rejected frame leaves the constructor alone\<close>

text \<open>
  C10. For every incoming frame that fails verification, the state of the assembler is
  unchanged: the frame is not appended to the pending buffer, \<^verbatim>\<open>last_frame\<close> is what it
  was, and every later frame is verified as it would have been before the rejected one.
\<close>

theorem C10_rejected_frame_keeps_state:
  assumes "verify rule c f = Inr (False, r)"
  shows "frame_setup (constructor (snd (recv_frame rule c f))) = frame_setup (constructor c)
         \<and> last_frame (constructor (snd (recv_frame rule c f))) = last_frame (constructor c)
         \<and> verify rule (snd (recv_frame rule c f)) g = verify rule c g"
proof -
  have r: "recv_frame rule c f = close c 1002 r"
    using assms by (rule recv_frame_rejected)
  have "verify rule (snd (close c 1002 r)) g = verify rule c g"
    by (rule verify_cong) (simp_all add: close_preserves)
  then show ?thesis
    unfolding r by (simp add: close_preserves)
qed

theorem C10_rejected_frame_keeps_state_witness:
  "verify NonMemberFalse example_client (data_frame True CONTINUATION [1])
     = Inr (False, Some (str ''Sent continuation without initial frame.''))
   \<and> frame_setup (constructor (snd (recv_frame NonMemberFalse example_client
                                     (data_frame True CONTINUATION [1])))) = []
   \<and> last_frame (constructor (snd (recv_frame NonMemberFalse example_client
                                     (data_frame True CONTINUATION [1])))) = None"
proof -
  have v: "verify NonMemberFalse example_client (data_frame True CONTINUATION [1])
           = Inr (False, Some (str ''Sent continuation without initial frame.''))"
    by (simp add: verify_def sequencing_violation_def example_client_def data_frame_def)
  show ?thesis
    using C10_rejected_frame_keeps_state [OF v] v by (simp add: example_client_def)
qed

end
